theory Spec2Isabelle
  imports Main "HOL-Library.Sublist"
begin

section \<open>C strings, stack buffers and the log\<close>

text \<open>
  A \<open>const char *\<close> argument is modelled by the characters it holds before its terminating
  NUL; a \<open>char[]\<close> buffer is modelled by all of its bytes, and read back as a C string with
  \<open>c_str\<close>. A store outside a buffer is undefined behaviour in C: the model returns \<open>None\<close>.
\<close>

definition NUL :: char where
  "NUL = CHR 0x00"

definition dquote :: char where
  "dquote = CHR 0x22"

definition newline :: char where
  "newline = CHR 0x0A"

definition c_str :: "string \<Rightarrow> string" where
  "c_str bytes = takeWhile (\<lambda>c. c \<noteq> NUL) bytes"

text \<open>
  \<open>BUFSIZE\<close> comes from defaults.h; pghba.c records its value in a comment
  (``BUFSIZE is 1024'').
\<close>

definition BUFSIZE :: nat where
  "BUFSIZE = 1024"

text \<open>
  \<open>strstr haystack needle\<close>: the offset of the first occurrence of \<open>needle\<close>, or \<open>None\<close>
  for the NULL pointer.
\<close>

fun strstr :: "string \<Rightarrow> string \<Rightarrow> nat option" where
  "strstr [] needle = (if needle = [] then Some 0 else None)"
| "strstr (h # hs) needle =
     (if prefix needle (h # hs) then Some 0 else map_option Suc (strstr hs needle))"

text \<open>
  Calls of \<open>log_debug\<close>, \<open>log_info\<close>, \<open>log_warn\<close>, \<open>log_error\<close> and \<open>log_fatal\<close> are
  recorded with their format string and arguments; \<open>fformat(stdout, ...)\<close> likewise.
\<close>

datatype LogLevel = LOG_TRACE | LOG_DEBUG | LOG_INFO | LOG_WARN | LOG_ERROR | LOG_FATAL

datatype fmt_arg = ArgS string | ArgD int

type_synonym log_entry = "LogLevel \<times> string \<times> fmt_arg list"

section \<open>pghba.c\<close>

definition HBA_LINE_COMMENT :: string where
  "HBA_LINE_COMMENT = '' # Auto-generated by pg_auto_failover''"

datatype HBADatabaseType = HBA_DATABASE_ALL | HBA_DATABASE_REPLICATION | HBA_DATABASE_DBNAME

datatype IPType = IPTYPE_V4 | IPTYPE_V6 | IPTYPE_NONE

text \<open>
  What pghba.c takes from files that are not part of the sources: \<open>ip_address_type\<close>
  and \<open>resolveHostnameForwardAndReverse\<close> (ipaddr.c) and the macro \<open>SKIP_HBA\<close>
  (defaults.h) are parameters.
\<close>

record hba_env =
  ip_address_type :: "string \<Rightarrow> IPType"
  SKIP_HBA :: "string \<Rightarrow> bool"
  resolveHostnameForwardAndReverse :: "string \<Rightarrow> string option"

text \<open>
  The state pghba.c works on: the files by path (\<open>read_file\<close> fails on a path with no
  contents), whether \<open>write_file\<close> fails, whether \<open>createPQExpBuffer\<close> returns NULL, and
  the log. \<open>read_file\<close> and \<open>write_file\<close> (file_utils.c) are declared in file_utils.h only:
  a failed \<open>write_file\<close> is taken to leave the file as it was.
\<close>

record hba_world =
  files :: "string \<Rightarrow> string option"
  write_fails :: bool
  out_of_memory :: bool
  log :: "log_entry list"

definition log_at :: "LogLevel \<Rightarrow> string \<Rightarrow> fmt_arg list \<Rightarrow> hba_world \<Rightarrow> hba_world" where
  "log_at level fmt args w = w\<lparr>log := log w @ [(level, fmt, args)]\<rparr>"

subsection \<open>escape\_hba\_string\<close>

text \<open>\<open>destination[escapedStringLength++] = c\<close> on the pair of the buffer and the index.\<close>

definition put :: "string \<times> nat \<Rightarrow> char \<Rightarrow> (string \<times> nat) option" where
  "put st c =
     (case st of (destination, escapedStringLength) \<Rightarrow>
        if escapedStringLength < length destination
        then Some (destination[escapedStringLength := c], escapedStringLength + 1)
        else None)"

text \<open>The \<open>for\<close> loop over the characters of \<open>hbaString\<close>.\<close>

fun escape_loop :: "string \<Rightarrow> string \<times> nat \<Rightarrow> (string \<times> nat) option" where
  "escape_loop [] st = Some st"
| "escape_loop (currentChar # rest) st =
     (case (if currentChar = dquote then put st dquote else Some st) of
        None \<Rightarrow> None
      | Some st1 \<Rightarrow>
          (case put st1 currentChar of
             None \<Rightarrow> None
           | Some st2 \<Rightarrow> escape_loop rest st2))"

text \<open>
  The result is the destination buffer after the call and the returned
  \<open>escapedStringLength\<close>. The C \<open>int\<close>s of the function are natural numbers here: every
  index it uses is checked against the size of the destination, which is \<open>BUFSIZE\<close> at
  both call sites.
\<close>

definition escape_hba_string :: "string \<Rightarrow> string \<Rightarrow> (string \<times> nat) option" where
  "escape_hba_string destination hbaString =
     (case put (destination, 0) dquote of
        None \<Rightarrow> None
      | Some st1 \<Rightarrow>
          (case escape_loop hbaString st1 of
             None \<Rightarrow> None
           | Some st2 \<Rightarrow>
               (case put st2 dquote of
                  None \<Rightarrow> None
                | Some (dest3, n3) \<Rightarrow>
                    if n3 < length dest3 then Some (dest3[n3 := NUL], n3) else None)))"

text \<open>
  The words of the specification: a double quote, the string with every double quote
  doubled, a closing double quote.
\<close>

definition doubled_quotes :: "string \<Rightarrow> string" where
  "doubled_quotes s = concat (map (\<lambda>c. if c = dquote then [dquote, dquote] else [c]) s)"

definition quoted_form :: "string \<Rightarrow> string" where
  "quoted_form s = dquote # doubled_quotes s @ [dquote]"

subsection \<open>Building a rule\<close>

text \<open>
  \<open>char escaped[BUFSIZE] = { 0 }; (void) escape_hba_string(escaped, s);\<close> followed by
  \<open>appendPQExpBufferStr(buffer, escaped)\<close>, which reads the buffer as a C string.
\<close>

definition escaped_in_buffer :: "string \<Rightarrow> string option" where
  "escaped_in_buffer s =
     (case escape_hba_string (replicate BUFSIZE NUL) s of
        None \<Rightarrow> None
      | Some (escaped, n) \<Rightarrow> Some (c_str escaped))"

text \<open>
  A \<open>PQExpBuffer\<close> is the string it holds. \<open>databaseName\<close> may be the NULL pointer
  (\<open>None\<close>); \<open>strlen(NULL)\<close> is undefined behaviour.
\<close>

definition append_database_field ::
  "string \<Rightarrow> HBADatabaseType \<Rightarrow> string option \<Rightarrow> string option" where
  "append_database_field destination databaseType databaseName =
     (case databaseType of
        HBA_DATABASE_ALL \<Rightarrow> Some (destination @ ''all'')
      | HBA_DATABASE_REPLICATION \<Rightarrow> Some (destination @ ''replication'')
      | HBA_DATABASE_DBNAME \<Rightarrow>
          (case databaseName of
             None \<Rightarrow> None
           | Some name \<Rightarrow>
               (case escaped_in_buffer name of
                  None \<Rightarrow> None
                | Some escapedDatabaseName \<Rightarrow> Some (destination @ escapedDatabaseName))))"

definition append_hostname_or_cidr :: "hba_env \<Rightarrow> string \<Rightarrow> string \<Rightarrow> string" where
  "append_hostname_or_cidr env destination hostname =
     (case ip_address_type env hostname of
        IPTYPE_V4 \<Rightarrow> destination @ hostname @ ''/32''
      | IPTYPE_V6 \<Rightarrow> destination @ hostname @ ''/128''
      | IPTYPE_NONE \<Rightarrow> destination @ hostname)"

text \<open>
  The result is the buffer after the call; with allocation taken to succeed the function
  returns true whenever it returns.
\<close>

definition pghba_append_rule_to_buffer ::
  "hba_env \<Rightarrow> string \<Rightarrow> bool \<Rightarrow> HBADatabaseType \<Rightarrow> string option \<Rightarrow> string option \<Rightarrow>
   string \<Rightarrow> string \<Rightarrow> string option" where
  "pghba_append_rule_to_buffer env buffer ssl databaseType database username hostname
       authenticationScheme =
     (let b1 = buffer @ (if ssl then ''hostssl '' else ''host '') in
      case append_database_field b1 databaseType database of
        None \<Rightarrow> None
      | Some b2 \<Rightarrow>
          (let b3 = b2 @ '' '' in
           case (case username of
                   Some u \<Rightarrow>
                     (case escaped_in_buffer u of
                        None \<Rightarrow> None
                      | Some escapedUsername \<Rightarrow> Some (b3 @ escapedUsername @ '' ''))
                 | None \<Rightarrow> Some (b3 @ ''all '')) of
             None \<Rightarrow> None
           | Some b4 \<Rightarrow>
               Some (append_hostname_or_cidr env b4 hostname @ '' '' @ authenticationScheme)))"

subsection \<open>pghba\_check\_hostname\<close>

definition pghba_check_hostname :: "hba_env \<Rightarrow> string \<Rightarrow> hba_world \<Rightarrow> bool \<times> hba_world" where
  "pghba_check_hostname env hostname w =
     (if CHR ''/'' \<in> set hostname \<or> ip_address_type env hostname \<noteq> IPTYPE_NONE
      then (True, w)
      else
        (case resolveHostnameForwardAndReverse env hostname of
           None \<Rightarrow>
             (False,
              log_at LOG_WARN
                ''Postgres might deny connection attempts from \"%s\", even with the new HBA rules.''
                [ArgS hostname]
                (log_at LOG_WARN
                   ''Failed to resolve hostname \"%s\" to an IP address that resolves batck to the hostname on a reverse DNS lookup.''
                   [ArgS hostname] w))
         | Some ipaddr \<Rightarrow>
             (True,
              log_at LOG_DEBUG ''pghba_check_hostname: \"%s\" <-> %s''
                [ArgS hostname, ArgS ipaddr] w)))"

subsection \<open>pghba\_ensure\_host\_rule\_exists\<close>

text \<open>
  The test \<open>includeLine != NULL && (includeLine == currentHbaContents ||
  includeLine[-1] == '\n')\<close> on the result of \<open>strstr\<close>.
\<close>

definition line_already_exists :: "string \<Rightarrow> string \<Rightarrow> bool" where
  "line_already_exists currentHbaContents hbaLine =
     (case strstr currentHbaContents hbaLine of
        None \<Rightarrow> False
      | Some i \<Rightarrow> i = 0 \<or> currentHbaContents ! (i - 1) = newline)"

text \<open>
  The result is \<open>None\<close> for undefined behaviour, otherwise the returned boolean and the
  state after the call.
\<close>

definition pghba_ensure_host_rule_exists ::
  "hba_env \<Rightarrow> string \<Rightarrow> bool \<Rightarrow> HBADatabaseType \<Rightarrow> string option \<Rightarrow> string option \<Rightarrow>
   string \<Rightarrow> string \<Rightarrow> hba_world \<Rightarrow> (bool \<times> hba_world) option" where
  "pghba_ensure_host_rule_exists env hbaFilePath ssl databaseType database username hostname
       authenticationScheme w =
     (if out_of_memory w
      then Some (False, log_at LOG_ERROR ''Failed to allocate memory'' [] w)
      else
        case pghba_append_rule_to_buffer env [] ssl databaseType database username hostname
               authenticationScheme of
          None \<Rightarrow> None
        | Some hbaLine \<Rightarrow>
            (let w1 = log_at LOG_DEBUG ''Ensuring the HBA file \"%s\" contains the line: %s''
                        [ArgS hbaFilePath, ArgS hbaLine] w in
             case files w1 hbaFilePath of
               None \<Rightarrow> Some (False, w1)
             | Some bytes \<Rightarrow>
                 (let currentHbaContents = c_str bytes in
                  if line_already_exists currentHbaContents hbaLine
                  then Some (True,
                         log_at LOG_DEBUG ''Line already exists in %s, skipping %s''
                           [ArgS hbaFilePath, ArgS hbaLine] w1)
                  else if SKIP_HBA env authenticationScheme
                  then Some (True,
                         log_at LOG_WARN ''Skipping HBA edits (per --skip-pg-hba) for rule: %s''
                           [ArgS hbaLine] w1)
                  else
                    (let w2 = snd (pghba_check_hostname env hostname w1);
                         newHbaContents =
                           currentHbaContents @ hbaLine @ HBA_LINE_COMMENT @ [newline]
                     in if write_fails w2
                        then Some (False, w2)
                        else Some (True,
                               log_at LOG_DEBUG ''Wrote new %s'' [ArgS hbaFilePath]
                                 (w2\<lparr>files := (files w2)(hbaFilePath \<mapsto> newHbaContents)\<rparr>))))))"

subsection \<open>pghba\_ensure\_host\_rules\_exist\<close>

text \<open>
  The fields of \<open>NodeAddress\<close> that pghba.c reads. A \<open>NodeAddressArray\<close> is the list of
  its first \<open>count\<close> nodes.
\<close>

record NodeAddress =
  nodeId :: int
  host :: string
  port :: int

text \<open>
  The inner \<open>for\<close> loop over \<open>hbaLines\<close>, on the pair of \<open>newHbaContents\<close> and the state.
  The lines are looked up in \<open>currentHbaContents\<close>, the file as it was read.
\<close>

fun hba_lines_loop ::
  "hba_env \<Rightarrow> string \<Rightarrow> string \<Rightarrow> string \<Rightarrow> string list \<Rightarrow> string \<times> hba_world \<Rightarrow>
   string \<times> hba_world" where
  "hba_lines_loop env hbaFilePath authenticationScheme currentHbaContents [] st = st"
| "hba_lines_loop env hbaFilePath authenticationScheme currentHbaContents (hbaLine # rest) st =
     (case st of (newHbaContents, w) \<Rightarrow>
        (let w1 = log_at LOG_DEBUG ''Ensuring the HBA file \"%s\" contains the line: %s''
                    [ArgS hbaFilePath, ArgS hbaLine] w in
         if line_already_exists currentHbaContents hbaLine
         then hba_lines_loop env hbaFilePath authenticationScheme currentHbaContents rest
                (newHbaContents,
                 log_at LOG_DEBUG ''Line already exists in %s, skipping %s''
                   [ArgS hbaFilePath, ArgS hbaLine] w1)
         else if SKIP_HBA env authenticationScheme
         then hba_lines_loop env hbaFilePath authenticationScheme currentHbaContents rest
                (newHbaContents,
                 log_at LOG_WARN ''Skipping HBA edits (per --skip-pg-hba) for rule: %s''
                   [ArgS hbaLine] w1)
         else hba_lines_loop env hbaFilePath authenticationScheme currentHbaContents rest
                (newHbaContents @ hbaLine @ HBA_LINE_COMMENT @ [newline], w1)))"

text \<open>The outer \<open>for\<close> loop over the nodes; \<open>None\<close> is undefined behaviour.\<close>

fun hba_nodes_loop ::
  "hba_env \<Rightarrow> string \<Rightarrow> bool \<Rightarrow> string option \<Rightarrow> string option \<Rightarrow> string \<Rightarrow> string \<Rightarrow>
   NodeAddress list \<Rightarrow> string \<times> hba_world \<Rightarrow> (string \<times> hba_world) option" where
  "hba_nodes_loop env hbaFilePath ssl database username authenticationScheme
       currentHbaContents [] st = Some st"
| "hba_nodes_loop env hbaFilePath ssl database username authenticationScheme
       currentHbaContents (node # rest) st =
     (case st of (newHbaContents, w) \<Rightarrow>
        (let w1 = log_at LOG_DEBUG ''pghba_ensure_host_rules_exist: %d %s:%d''
                    [ArgD (nodeId node), ArgS (host node), ArgD (port node)] w;
             w2 = (if \<not> SKIP_HBA env authenticationScheme
                   then snd (pghba_check_hostname env (host node) w1)
                   else w1)
         in
         case pghba_append_rule_to_buffer env [] ssl HBA_DATABASE_REPLICATION None username
                (host node) authenticationScheme of
           None \<Rightarrow> None
         | Some hbaLineReplication \<Rightarrow>
             (case pghba_append_rule_to_buffer env [] ssl HBA_DATABASE_DBNAME database username
                     (host node) authenticationScheme of
                None \<Rightarrow> None
              | Some hbaLineDatabase \<Rightarrow>
                  (let w3 = log_at LOG_INFO ''Ensuring HBA rules for node %d (%s:%d)''
                              [ArgD (nodeId node), ArgS (host node), ArgD (port node)] w2
                   in hba_nodes_loop env hbaFilePath ssl database username authenticationScheme
                        currentHbaContents rest
                        (hba_lines_loop env hbaFilePath authenticationScheme currentHbaContents
                           [hbaLineReplication, hbaLineDatabase] (newHbaContents, w3))))))"

definition pghba_ensure_host_rules_exist ::
  "hba_env \<Rightarrow> string \<Rightarrow> NodeAddress list \<Rightarrow> bool \<Rightarrow> string option \<Rightarrow> string option \<Rightarrow>
   string \<Rightarrow> hba_world \<Rightarrow> (bool \<times> hba_world) option" where
  "pghba_ensure_host_rules_exist env hbaFilePath nodesArray ssl database username
       authenticationScheme w =
     (if out_of_memory w
      then Some (False, log_at LOG_ERROR ''Failed to allocate memory'' [] w)
      else
        case files w hbaFilePath of
          None \<Rightarrow> Some (False, w)
        | Some bytes \<Rightarrow>
            (let currentHbaContents = c_str bytes in
             case hba_nodes_loop env hbaFilePath ssl database username authenticationScheme
                    currentHbaContents nodesArray (currentHbaContents, w) of
               None \<Rightarrow> None
             | Some (newHbaContents, w1) \<Rightarrow>
                 if write_fails w1
                 then Some (False, w1)
                 else Some (True,
                        log_at LOG_DEBUG ''Wrote new %s'' [ArgS hbaFilePath]
                          (w1\<lparr>files := (files w1)(hbaFilePath \<mapsto> newHbaContents)\<rparr>))))"

subsection \<open>The rule line in the words of the specification\<close>

definition is_c_string :: "string \<Rightarrow> bool" where
  "is_c_string s = (NUL \<notin> set s)"

definition host_type_field :: "bool \<Rightarrow> string" where
  "host_type_field ssl = (if ssl then ''hostssl'' else ''host'')"

definition database_field :: "HBADatabaseType \<Rightarrow> string option \<Rightarrow> string" where
  "database_field databaseType database =
     (case databaseType of
        HBA_DATABASE_ALL \<Rightarrow> ''all''
      | HBA_DATABASE_REPLICATION \<Rightarrow> ''replication''
      | HBA_DATABASE_DBNAME \<Rightarrow> quoted_form (the database))"

definition user_field :: "string option \<Rightarrow> string" where
  "user_field username = (case username of None \<Rightarrow> ''all'' | Some u \<Rightarrow> quoted_form u)"

definition address_field :: "hba_env \<Rightarrow> string \<Rightarrow> string" where
  "address_field env hostname =
     (case ip_address_type env hostname of
        IPTYPE_V4 \<Rightarrow> hostname @ ''/32''
      | IPTYPE_V6 \<Rightarrow> hostname @ ''/128''
      | IPTYPE_NONE \<Rightarrow> hostname)"

definition hba_rule ::
  "hba_env \<Rightarrow> bool \<Rightarrow> HBADatabaseType \<Rightarrow> string option \<Rightarrow> string option \<Rightarrow> string \<Rightarrow> string \<Rightarrow>
   string" where
  "hba_rule env ssl databaseType database username hostname authenticationScheme =
     host_type_field ssl @ '' '' @ database_field databaseType database @ '' '' @
     user_field username @ '' '' @ address_field env hostname @ '' '' @ authenticationScheme"

text \<open>The rule occurs somewhere in the contents at the start or right after a newline.\<close>

definition occurs_at_line_start :: "string \<Rightarrow> string \<Rightarrow> bool" where
  "occurs_at_line_start contents line =
     (\<exists>i \<le> length contents. prefix line (drop i contents) \<and>
        (i = 0 \<or> contents ! (i - 1) = newline))"

text \<open>
  The two rules \<open>pghba_ensure_host_rules_exist\<close> builds for a node: the replication rule
  (with the NULL database) and the rule for the database.
\<close>

definition node_rules ::
  "hba_env \<Rightarrow> bool \<Rightarrow> string option \<Rightarrow> string option \<Rightarrow> string \<Rightarrow> NodeAddress \<Rightarrow> string list" where
  "node_rules env ssl database username authenticationScheme node =
     [hba_rule env ssl HBA_DATABASE_REPLICATION None username (host node) authenticationScheme,
      hba_rule env ssl HBA_DATABASE_DBNAME database username (host node) authenticationScheme]"

subsection \<open>Concrete inputs\<close>

text \<open>
  An environment in which 10.0.0.1 is an IPv4 address, every other host is a name that
  does not resolve, and the skip marker is the authentication method \<open>skip\<close> (the comment
  in \<open>pghba_ensure_host_rule_exists\<close>: ``When the authentication method is "skip", the
  option --skip-pg-hba has been used'').
\<close>

definition example_env :: hba_env where
  "example_env =
     \<lparr>ip_address_type = (\<lambda>h. if h = ''10.0.0.1'' then IPTYPE_V4 else IPTYPE_NONE),
      SKIP_HBA = (\<lambda>a. a = ''skip''),
      resolveHostnameForwardAndReverse = (\<lambda>h. None)\<rparr>"

text \<open>A pg\_hba.conf whose only line is a rule that was commented out.\<close>

definition hba_with_commented_rule :: hba_world where
  "hba_with_commented_rule =
     \<lparr>files = [''pg_hba.conf'' \<mapsto> ''#host all all 10.0.0.1/32 trust'' @ [newline]],
      write_fails = False, out_of_memory = False, log = []\<rparr>"

text \<open>A pg\_hba.conf with one unrelated line, and an empty one.\<close>

definition hba_local_only :: hba_world where
  "hba_local_only =
     \<lparr>files = [''pg_hba.conf'' \<mapsto> ''local all all trust'' @ [newline]],
      write_fails = False, out_of_memory = False, log = []\<rparr>"

definition hba_empty :: hba_world where
  "hba_empty =
     \<lparr>files = [''pg_hba.conf'' \<mapsto> []],
      write_fails = False, out_of_memory = False, log = []\<rparr>"

text \<open>What a caller observes of a call: the returned boolean and the file at a path.\<close>

definition returned_and_file ::
  "string \<Rightarrow> (bool \<times> hba_world) option \<Rightarrow> (bool \<times> string option) option" where
  "returned_and_file path result =
     (case result of None \<Rightarrow> None | Some (r, w) \<Rightarrow> Some (r, files w path))"

text \<open>Two calls in a row, the second on the state the first left; each one observed.\<close>

definition call_twice ::
  "string \<Rightarrow> (hba_world \<Rightarrow> (bool \<times> hba_world) option) \<Rightarrow> hba_world \<Rightarrow>
   ((bool \<times> string option) \<times> (bool \<times> string option)) option" where
  "call_twice path call w =
     (case call w of
        None \<Rightarrow> None
      | Some (r1, w1) \<Rightarrow>
          (case call w1 of
             None \<Rightarrow> None
           | Some (r2, w2) \<Rightarrow> Some ((r1, files w1 path), (r2, files w2 path))))"

section \<open>The command line: cli\_service.c and cli\_do\_monitor.c\<close>

subsection \<open>Exit codes, signals, output\<close>

text \<open>
  Modelled from the spec: the values of the \<open>EXIT_CODE_*\<close> constants (defaults.h is not
  part of the sources). The specification lists them: 0 quit/ok, 11 bad args, 12 bad
  config, 13 bad state, 14 pgctl failure, 15 pgsql failure, 16 monitor failure,
  17 internal.
\<close>

definition EXIT_CODE_QUIT :: int where
  "EXIT_CODE_QUIT = 0"

definition EXIT_CODE_BAD_ARGS :: int where
  "EXIT_CODE_BAD_ARGS = 11"

definition EXIT_CODE_BAD_CONFIG :: int where
  "EXIT_CODE_BAD_CONFIG = 12"

definition EXIT_CODE_BAD_STATE :: int where
  "EXIT_CODE_BAD_STATE = 13"

definition EXIT_CODE_PGCTL :: int where
  "EXIT_CODE_PGCTL = 14"

definition EXIT_CODE_PGSQL :: int where
  "EXIT_CODE_PGSQL = 15"

definition EXIT_CODE_MONITOR :: int where
  "EXIT_CODE_MONITOR = 16"

definition EXIT_CODE_INTERNAL_ERROR :: int where
  "EXIT_CODE_INTERNAL_ERROR = 17"

text \<open>
  \<open>MAXPGPATH\<close> is PostgreSQL's; file\_utils.h sizes its path table as 1024 entries of
  \<open>MAXPGPATH\<close> bytes and counts 1024*1024 bytes for it.
\<close>

definition MAXPGPATH :: nat where
  "MAXPGPATH = 1024"

text \<open>\<open>strlcpy(dst, src, size)\<close> into a zeroed field, read back as a C string.\<close>

definition strlcpy :: "string \<Rightarrow> nat \<Rightarrow> string" where
  "strlcpy src n = take (n - 1) src"

text \<open>The signals cli\_service.c sends.\<close>

datatype signal = SIGHUP | SIGINT | SIGQUIT | SIGTERM

text \<open>
  A command either calls \<open>exit\<close> with a code or returns to the command line driver.
\<close>

datatype 'a outcome = Exits int | Returns 'a

text \<open>
  JSON values as the commands build them with parson: strings, numbers (the commands
  only store integers, cast to double) and objects. \<open>json_object_set\<close> replaces the value
  of a name that is present and adds the name otherwise.
\<close>

datatype json_value =
    JSON_String string
  | JSON_Number int
  | JSON_Object "(string \<times> json_value) list"

definition json_object_set ::
  "string \<Rightarrow> json_value \<Rightarrow> (string \<times> json_value) list \<Rightarrow> (string \<times> json_value) list" where
  "json_object_set name v root =
     (if name \<in> fst ` set root
      then map (\<lambda>(k, x). if k = name then (k, v) else (k, x)) root
      else root @ [(name, v)])"

text \<open>
  What a command writes: \<open>fformat(stdout, fmt, ...)\<close>, \<open>cli_pprint_json(js)\<close>,
  \<open>commandline_help(stderr)\<close> and \<open>commandline_print_usage(command, stderr)\<close>.
\<close>

datatype output_event =
    Stdout_fformat string "fmt_arg list"
  | Stdout_json json_value
  | Stderr_help
  | Stderr_usage string

subsection \<open>Configuration and state\<close>

text \<open>The fields of \<open>KeeperConfig\<close> that the two files read or write.\<close>

record KeeperConfig =
  pgSetup_pgdata :: string
  pgSetup_pgport :: int
  pathnames_pid :: string
  formation :: string
  groupId :: int
  nodename :: string
  monitor_pguri :: string

definition zero_KeeperConfig :: KeeperConfig where
  "zero_KeeperConfig =
     \<lparr>pgSetup_pgdata = [], pgSetup_pgport = 0, pathnames_pid = [], formation = [],
      groupId = 0, nodename = [], monitor_pguri = []\<rparr>"

text \<open>
  Modelled from the spec: the \<open>NodeState\<close> enumeration (state.h is not part of the
  sources). The specification lists the roles; the sources name \<open>NO_STATE\<close>,
  \<open>INIT_STATE\<close>, \<open>SINGLE_STATE\<close> and \<open>WAIT_STANDBY_STATE\<close> among them.
\<close>

datatype NodeState =
    NO_STATE | INIT_STATE | SINGLE_STATE | WAIT_PRIMARY_STATE | PRIMARY_STATE
  | WAIT_STANDBY_STATE | CATCHINGUP_STATE | SECONDARY_STATE | PREPARE_PROMOTION_STATE
  | STOP_REPLICATION_STATE | DEMOTED_STATE | DEMOTE_TIMEOUT_STATE | DRAINING_STATE
  | REPORT_LSN_STATE | MAINTENANCE_STATE | JOIN_PRIMARY_STATE | APPLY_SETTINGS_STATE
  | FAST_FORWARD_STATE | DROPPED_STATE

text \<open>The fields of \<open>Keeper\<close> that \<open>cli_do_monitor_node_active\<close> passes to the monitor.\<close>

record Keeper =
  current_node_id :: int
  current_group :: int
  current_role :: NodeState
  pgIsRunning :: bool
  currentLSN :: string
  pgsrSyncState :: string

record MonitorAssignedState =
  assigned_nodeId :: int
  assigned_groupId :: int
  assigned_state :: NodeState

text \<open>
  \<open>StateNotification\<close>: the fields the command prints, the message, and the group and node
  numbers of the payload.
\<close>

record StateNotification =
  message :: string
  reportedState :: NodeState
  goalState :: NodeState
  formationId :: string
  notification_groupId :: int
  notification_nodeId :: int
  nodeName :: string
  nodePort :: int

definition zero_StateNotification :: StateNotification where
  "zero_StateNotification =
     \<lparr>message = [], reportedState = NO_STATE, goalState = NO_STATE, formationId = [],
      notification_groupId = 0, notification_nodeId = 0, nodeName = [], nodePort = 0\<rparr>"

text \<open>
  The functions the two files call that are not part of the sources (keeper.c,
  keeper\_config.c, monitor.c, parsing.c, state.c, pidfile.c, cli\_common.c) and the system's
  \<open>kill\<close> and \<open>strsignal\<close> are parameters. A function that returns false is \<open>None\<close> (or \<open>False\<close>); one
  that fills a result returns it; the two that print the other nodes return what they
  print (both are only called with \<open>ANY_STATE\<close>, which is left out).
\<close>

record cli_env =
  prepare_keeper_options :: "KeeperConfig \<Rightarrow> KeeperConfig"
  keeper_cli_print_version :: int
  read_pidfile :: "string \<Rightarrow> int option"
  kill_succeeds :: "int \<Rightarrow> signal \<Rightarrow> bool"
  strsignal :: "signal \<Rightarrow> string"
  keeper_config_read_file :: "KeeperConfig \<Rightarrow> bool \<Rightarrow> bool \<Rightarrow> bool \<Rightarrow> KeeperConfig option"
  monitor_init :: "string \<Rightarrow> bool"
  monitor_get_primary :: "string \<Rightarrow> int \<Rightarrow> NodeAddress option"
  monitor_get_coordinator :: "string \<Rightarrow> NodeAddress option"
  monitor_print_other_nodes_as_json :: "string \<Rightarrow> int \<Rightarrow> json_value option"
  monitor_print_other_nodes :: "string \<Rightarrow> int \<Rightarrow> (string \<times> fmt_arg list) list option"
  keeper_init :: "KeeperConfig \<Rightarrow> Keeper option"
  keeper_update_pg_state :: "Keeper \<Rightarrow> Keeper"
  monitor_node_active ::
    "string \<Rightarrow> string \<Rightarrow> int \<Rightarrow> int \<Rightarrow> int \<Rightarrow> NodeState \<Rightarrow> bool \<Rightarrow> string \<Rightarrow> string \<Rightarrow>
     MonitorAssignedState option"
  keeper_update_state :: "Keeper \<Rightarrow> int \<Rightarrow> int \<Rightarrow> NodeState \<Rightarrow> bool \<Rightarrow> bool"
  monitor_init_from_pgsetup :: "KeeperConfig \<Rightarrow> bool"
  monitor_ensure_extension_version :: "string option"
  parse_state_notification_message :: "StateNotification \<Rightarrow> bool \<times> StateNotification"
  NodeStateToString :: "NodeState \<Rightarrow> string"

text \<open>
  The state of the process: the static \<open>stop_signal\<close>, the globals \<open>keeperOptions\<close> and
  \<open>outputJSON\<close>, the log level, and what the process has logged, written and sent.
\<close>

record cli_state =
  stop_signal :: signal
  keeperOptions :: KeeperConfig
  outputJSON :: bool
  log_level :: LogLevel
  cli_log :: "log_entry list"
  printed :: "output_event list"
  kill_calls :: "(int \<times> signal) list"

definition cli_log_at :: "LogLevel \<Rightarrow> string \<Rightarrow> fmt_arg list \<Rightarrow> cli_state \<Rightarrow> cli_state" where
  "cli_log_at level fmt args st = st\<lparr>cli_log := cli_log st @ [(level, fmt, args)]\<rparr>"

definition write_out :: "output_event \<Rightarrow> cli_state \<Rightarrow> cli_state" where
  "write_out ev st = st\<lparr>printed := printed st @ [ev]\<rparr>"

subsection \<open>cli\_service.c: the stop command\<close>

text \<open>
  The table \<open>long_options\<close> of \<open>cli_getopt_pgdata_and_mode\<close>: name, whether the option
  takes an argument, and the value \<open>getopt_long\<close> returns for it.
\<close>

datatype has_arg = no_argument | required_argument

definition long_options :: "(string \<times> has_arg \<times> char) list" where
  "long_options =
     [(''pgdata'', required_argument, CHR ''D''),
      (''fast'', no_argument, CHR ''f''),
      (''immediate'', no_argument, CHR ''i''),
      (''version'', no_argument, CHR ''V''),
      (''verbose'', no_argument, CHR ''v''),
      (''quiet'', no_argument, CHR ''q''),
      (''help'', no_argument, CHR ''h'')]"

text \<open>
  What \<open>getopt_long\<close> yields when it meets the long option of that name: the value of
  the table and \<open>optarg\<close>, or \<open>?\<close> for a name that is not in the table. The command line
  as a whole is the list of what the successive calls of \<open>getopt_long\<close> yield.
\<close>

definition long_option :: "string \<Rightarrow> string \<Rightarrow> char \<times> string" where
  "long_option name optarg =
     (case find (\<lambda>entry. fst entry = name) long_options of
        Some (n, a, val) \<Rightarrow> (val, if a = required_argument then optarg else [])
      | None \<Rightarrow> (CHR ''?'', []))"

text \<open>
  The \<open>while\<close> loop of \<open>cli_getopt_pgdata_and_mode\<close> on the local \<open>options\<close> and
  \<open>verboseCount\<close>. \<open>keeper_cli_print_version\<close> prints the version and exits; its exit code
  is a parameter.
\<close>

fun cli_getopt_loop ::
  "cli_env \<Rightarrow> (char \<times> string) list \<Rightarrow> KeeperConfig \<Rightarrow> nat \<Rightarrow> cli_state \<Rightarrow>
   KeeperConfig outcome \<times> cli_state" where
  "cli_getopt_loop env [] options verboseCount st = (Returns options, st)"
| "cli_getopt_loop env ((c, optarg) # rest) options verboseCount st =
     (if c = CHR ''D'' then
        (let options' = options\<lparr>pgSetup_pgdata := strlcpy optarg MAXPGPATH\<rparr> in
         cli_getopt_loop env rest options' verboseCount
           (cli_log_at LOG_TRACE ''--pgdata %s'' [ArgS (pgSetup_pgdata options')] st))
      else if c = CHR ''f'' then
        (if stop_signal st \<noteq> SIGTERM
         then (Exits EXIT_CODE_BAD_ARGS,
               cli_log_at LOG_FATAL ''Please use either --fast or --immediate, not both'' [] st)
         else cli_getopt_loop env rest options verboseCount (st\<lparr>stop_signal := SIGINT\<rparr>))
      else if c = CHR ''i'' then
        (if stop_signal st \<noteq> SIGTERM
         then (Exits EXIT_CODE_BAD_ARGS,
               cli_log_at LOG_FATAL ''Please use either --fast or --immediate, not both'' [] st)
         else cli_getopt_loop env rest options verboseCount (st\<lparr>stop_signal := SIGQUIT\<rparr>))
      else if c = CHR ''V'' then (Exits (keeper_cli_print_version env), st)
      else if c = CHR ''v'' then
        cli_getopt_loop env rest options (verboseCount + 1)
          (st\<lparr>log_level :=
                (if verboseCount + 1 = 1 then LOG_INFO
                 else if verboseCount + 1 = 2 then LOG_DEBUG
                 else LOG_TRACE)\<rparr>)
      else if c = CHR ''q'' then
        cli_getopt_loop env rest options verboseCount (st\<lparr>log_level := LOG_ERROR\<rparr>)
      else if c = CHR ''h'' then (Exits EXIT_CODE_QUIT, write_out Stderr_help st)
      else (Exits EXIT_CODE_BAD_ARGS, write_out Stderr_help st))"

text \<open>The function returns \<open>optind\<close>, which is \<open>getopt_long\<close>'s and is left out.\<close>

definition cli_getopt_pgdata_and_mode ::
  "cli_env \<Rightarrow> (char \<times> string) list \<Rightarrow> cli_state \<Rightarrow> unit outcome \<times> cli_state" where
  "cli_getopt_pgdata_and_mode env parsed st =
     (case cli_getopt_loop env parsed zero_KeeperConfig 0 st of
        (Exits code, st') \<Rightarrow> (Exits code, st')
      | (Returns options, st') \<Rightarrow>
          (Returns (), st'\<lparr>keeperOptions := prepare_keeper_options env options\<rparr>))"

definition cli_service_stop :: "cli_env \<Rightarrow> cli_state \<Rightarrow> unit outcome \<times> cli_state" where
  "cli_service_stop env st =
     (case read_pidfile env (pathnames_pid (keeperOptions st)) of
        Some pid \<Rightarrow>
          (let st1 = st\<lparr>kill_calls := kill_calls st @ [(pid, stop_signal st)]\<rparr> in
           if \<not> kill_succeeds env pid (stop_signal st)
           then (Exits EXIT_CODE_INTERNAL_ERROR,
                 cli_log_at LOG_ERROR ''Failed to send %s to pg_autoctl pid %d: %m''
                   [ArgS (strsignal env (stop_signal st)), ArgD pid] st1)
           else (Returns (), st1))
      | None \<Rightarrow>
          (Returns (),
           cli_log_at LOG_FATAL ''Failed to read the keeper's PID at \"%s\"''
             [ArgS (pathnames_pid (keeperOptions st))] st))"

text \<open>
  \<open>service_stop_command\<close> pairs the two with \<open>make_command\<close>: the command line driver
  (commandline.c) runs the command's getopt function and then, unless that exited, its
  run function.
\<close>

definition service_stop_command ::
  "cli_env \<Rightarrow> (char \<times> string) list \<Rightarrow> cli_state \<Rightarrow> unit outcome \<times> cli_state" where
  "service_stop_command env parsed st =
     (case cli_getopt_pgdata_and_mode env parsed st of
        (Exits code, st') \<Rightarrow> (Exits code, st')
      | (Returns u, st') \<Rightarrow> cli_service_stop env st')"

text \<open>Options that neither pick a stop mode nor end the command: pgdata, verbose, quiet.\<close>

definition other_option :: "char \<times> string \<Rightarrow> bool" where
  "other_option parsed = (fst parsed \<in> {CHR ''D'', CHR ''v'', CHR ''q''})"

subsection \<open>cli\_do\_monitor.c\<close>

text \<open>
  Every command copies \<open>keeperOptions\<close> into its \<open>config\<close> and has
  \<open>keeper_config_read_file\<close> fill it, with \<open>missingPgdataIsOk\<close> and \<open>pgIsNotRunningIsOk\<close>
  true and \<open>monitorDisabledIsOk\<close> false.
\<close>

definition monitor_url_invalid :: string where
  "monitor_url_invalid =
     ''Failed to contact the monitor because its URL is invalid, see above for details''"

definition cli_do_monitor_get_primary_node ::
  "cli_env \<Rightarrow> string list \<Rightarrow> cli_state \<Rightarrow> unit outcome \<times> cli_state" where
  "cli_do_monitor_get_primary_node env argv st =
     (case keeper_config_read_file env (keeperOptions st) True True False of
        None \<Rightarrow> (Exits EXIT_CODE_BAD_CONFIG, st)
      | Some config \<Rightarrow>
          if \<not> monitor_init env (monitor_pguri config)
          then (Exits EXIT_CODE_BAD_CONFIG, cli_log_at LOG_FATAL monitor_url_invalid [] st)
          else
            (case monitor_get_primary env (formation config) (groupId config) of
               None \<Rightarrow>
                 (Exits EXIT_CODE_MONITOR,
                  cli_log_at LOG_FATAL
                    ''Failed to get the primary node from the monitor, see above for details''
                    [] st)
             | Some primaryNode \<Rightarrow>
                 if outputJSON st
                 then
                   (Returns (),
                    write_out
                      (Stdout_json (JSON_Object
                         (json_object_set ''port'' (JSON_Number (port primaryNode))
                         (json_object_set ''host'' (JSON_String (host primaryNode))
                         (json_object_set ''groupId'' (JSON_Number (groupId config))
                         (json_object_set ''formation'' (JSON_String (formation config))
                            [])))))) st)
                 else
                   (Returns (),
                    write_out
                      (Stdout_fformat (''%s/%d %s:%d'' @ [newline])
                         [ArgS (formation config), ArgD (groupId config),
                          ArgS (host primaryNode), ArgD (port primaryNode)]) st)))"

definition cli_do_monitor_get_other_nodes ::
  "cli_env \<Rightarrow> string list \<Rightarrow> cli_state \<Rightarrow> unit outcome \<times> cli_state" where
  "cli_do_monitor_get_other_nodes env argv st =
     (case keeper_config_read_file env (keeperOptions st) True True False of
        None \<Rightarrow> (Exits EXIT_CODE_BAD_CONFIG, st)
      | Some config \<Rightarrow>
          if \<not> monitor_init env (monitor_pguri config)
          then (Exits EXIT_CODE_BAD_CONFIG, cli_log_at LOG_FATAL monitor_url_invalid [] st)
          else if outputJSON st
          then
            (case monitor_print_other_nodes_as_json env (nodename config)
                    (pgSetup_pgport config) of
               None \<Rightarrow>
                 (Exits EXIT_CODE_MONITOR,
                  cli_log_at LOG_FATAL
                    ''Failed to get the other nodes from the monitor, see above for details''
                    [] st)
             | Some js \<Rightarrow> (Returns (), write_out (Stdout_json js) st))
          else
            (case monitor_print_other_nodes env (nodename config) (pgSetup_pgport config) of
               None \<Rightarrow>
                 (Exits EXIT_CODE_MONITOR,
                  cli_log_at LOG_FATAL
                    ''Failed to get the other nodes from the monitor, see above for details''
                    [] st)
             | Some lines \<Rightarrow>
                 (Returns (),
                  st\<lparr>printed := printed st @ map (\<lambda>(fmt, args). Stdout_fformat fmt args) lines\<rparr>)))"

definition cli_do_monitor_get_coordinator ::
  "cli_env \<Rightarrow> string list \<Rightarrow> cli_state \<Rightarrow> unit outcome \<times> cli_state" where
  "cli_do_monitor_get_coordinator env argv st =
     (case keeper_config_read_file env (keeperOptions st) True True False of
        None \<Rightarrow> (Exits EXIT_CODE_BAD_CONFIG, st)
      | Some config \<Rightarrow>
          if \<not> monitor_init env (monitor_pguri config)
          then (Exits EXIT_CODE_BAD_CONFIG, cli_log_at LOG_FATAL monitor_url_invalid [] st)
          else
            (case monitor_get_coordinator env (formation config) of
               None \<Rightarrow>
                 (Exits EXIT_CODE_MONITOR,
                  cli_log_at LOG_FATAL
                    ''Failed to get the coordinator node from the monitor, see above for details''
                    [] st)
             | Some coordinatorNode \<Rightarrow>
                 if host coordinatorNode = []
                 then
                   (Exits EXIT_CODE_QUIT,
                    write_out
                      (Stdout_fformat (''%s has no coordinator ready yet'' @ [newline])
                         [ArgS (formation config)]) st)
                 else if outputJSON st
                 then
                   (Returns (),
                    write_out
                      (Stdout_json (JSON_Object
                         (json_object_set ''port'' (JSON_Number (port coordinatorNode))
                         (json_object_set ''host'' (JSON_String (host coordinatorNode))
                         (json_object_set ''groupId'' (JSON_Number (groupId config))
                         (json_object_set ''formation'' (JSON_String (formation config))
                            [])))))) st)
                 else
                   (Returns (),
                    write_out
                      (Stdout_fformat (''%s %s:%d'' @ [newline])
                         [ArgS (formation config), ArgS (host coordinatorNode),
                          ArgD (port coordinatorNode)]) st)))"

text \<open>
  \<open>keeper_update_pg_state\<close> is called for its effect on the keeper, its result ignored;
  a failed \<open>keeper_update_state\<close> is logged and the command goes on.
\<close>

definition cli_do_monitor_node_active ::
  "cli_env \<Rightarrow> string list \<Rightarrow> cli_state \<Rightarrow> unit outcome \<times> cli_state" where
  "cli_do_monitor_node_active env argv st =
     (case keeper_config_read_file env (keeperOptions st) True True False of
        None \<Rightarrow> (Exits EXIT_CODE_BAD_CONFIG, st)
      | Some config \<Rightarrow>
          (case keeper_init env config of
             None \<Rightarrow> (Exits EXIT_CODE_BAD_CONFIG, st)
           | Some keeper0 \<Rightarrow>
               (let keeper = keeper_update_pg_state env keeper0 in
                case monitor_node_active env (formation config) (nodename config)
                       (pgSetup_pgport config) (current_node_id keeper) (current_group keeper)
                       (current_role keeper) (pgIsRunning keeper) (currentLSN keeper)
                       (pgsrSyncState keeper) of
                  None \<Rightarrow>
                    (Exits EXIT_CODE_PGSQL,
                     cli_log_at LOG_FATAL
                       ''Failed to get the goal state from the node with the monitor, see above for details''
                       [] st)
                | Some assignedState \<Rightarrow>
                    (let st1 =
                           (if \<not> keeper_update_state env keeper (assigned_nodeId assignedState)
                                   (assigned_groupId assignedState)
                                   (assigned_state assignedState) True
                            then cli_log_at LOG_ERROR ''Failed to update keepers's state'' [] st
                            else st)
                     in
                     if outputJSON st1
                     then
                       (Returns (),
                        write_out
                          (Stdout_json (JSON_Object
                             (json_object_set ''assigned_role''
                                (JSON_String (NodeStateToString env (assigned_state assignedState)))
                             (json_object_set ''groupId''
                                (JSON_Number (assigned_groupId assignedState))
                             (json_object_set ''nodeId''
                                (JSON_Number (assigned_nodeId assignedState))
                             (json_object_set ''port'' (JSON_Number (pgSetup_pgport config))
                             (json_object_set ''host'' (JSON_String (nodename config))
                             (json_object_set ''formation'' (JSON_String (formation config))
                                [])))))))) st1)
                     else
                       (Returns (),
                        write_out
                          (Stdout_fformat (''%s/%d %s:%d %d:%d %s'' @ [newline])
                             [ArgS (formation config), ArgD (groupId config),
                              ArgS (nodename config), ArgD (pgSetup_pgport config),
                              ArgD (assigned_nodeId assignedState),
                              ArgD (assigned_groupId assignedState),
                              ArgS (NodeStateToString env (assigned_state assignedState))])
                          st1)))))"

definition cli_do_monitor_version ::
  "cli_env \<Rightarrow> string list \<Rightarrow> cli_state \<Rightarrow> unit outcome \<times> cli_state" where
  "cli_do_monitor_version env argv st =
     (if \<not> monitor_init_from_pgsetup env (keeperOptions st)
      then (Exits EXIT_CODE_BAD_ARGS, st)
      else
        (case monitor_ensure_extension_version env of
           None \<Rightarrow> (Exits EXIT_CODE_MONITOR, st)
         | Some installedVersion \<Rightarrow>
             (let st1 =
                    (if outputJSON st
                     then cli_log_at LOG_WARN
                            ''This command does not support JSON output at the moment'' [] st
                     else st)
              in (Returns (),
                  write_out (Stdout_fformat (''%s'' @ [newline]) [ArgS installedVersion]) st1))))"

text \<open>\<open>argc\<close> is the length of \<open>argv\<close>.\<close>

definition cli_do_monitor_parse_notification ::
  "cli_env \<Rightarrow> string list \<Rightarrow> cli_state \<Rightarrow> unit outcome \<times> cli_state" where
  "cli_do_monitor_parse_notification env argv st =
     (if length argv \<noteq> 1
      then (Exits EXIT_CODE_BAD_ARGS, write_out (Stderr_usage ''parse-notification'') st)
      else
        (case parse_state_notification_message env
                (zero_StateNotification\<lparr>message := strlcpy (argv ! 0) BUFSIZE\<rparr>) of
           (parsed, notification) \<Rightarrow>
             (let st1 =
                    (if parsed
                     then cli_log_at LOG_INFO
                            ''New state for %s:%d in formation \"%s\": %s/%s''
                            [ArgS (nodeName notification), ArgD (nodePort notification),
                             ArgS (formationId notification),
                             ArgS (NodeStateToString env (reportedState notification)),
                             ArgS (NodeStateToString env (goalState notification))] st
                     else st)
              in (Returns (),
                  write_out
                    (Stdout_json (JSON_Object
                       (json_object_set ''goalState''
                          (JSON_String (NodeStateToString env (goalState notification)))
                       (json_object_set ''reportedState''
                          (JSON_String (NodeStateToString env (reportedState notification)))
                       (json_object_set ''formationid'' (JSON_String (formationId notification))
                       (json_object_set ''nodeport'' (JSON_Number (nodePort notification))
                       (json_object_set ''nodename'' (JSON_String (nodeName notification))
                          []))))))) st1))))"

text \<open>Whether what a command printed on standard output is JSON.\<close>

fun is_json_output :: "output_event \<Rightarrow> bool" where
  "is_json_output (Stdout_json js) = True"
| "is_json_output (Stdout_fformat fmt args) = False"
| "is_json_output Stderr_help = False"
| "is_json_output (Stderr_usage name) = False"

section \<open>Parts modelled from the specification\<close>

subsection \<open>Role names and the notification parser\<close>

text \<open>
  Modelled from the spec: \<open>NodeStateToString\<close> and \<open>NodeStateFromString\<close> (state.c is not
  part of the sources). The roles are serialized as lowercase identifiers; a role
  identifier that is not known yields \<open>unknown\<close>. In the sources
  \<open>cli_do_monitor_register_node\<close> shows that \<open>NodeStateFromString\<close> answers \<open>NO_STATE\<close> for
  a string it cannot parse, so \<open>unknown\<close> is how \<open>NO_STATE\<close> is written.
\<close>

definition role_names :: "(string \<times> NodeState) list" where
  "role_names =
     [(''init'', INIT_STATE), (''single'', SINGLE_STATE),
      (''wait_primary'', WAIT_PRIMARY_STATE), (''primary'', PRIMARY_STATE),
      (''wait_standby'', WAIT_STANDBY_STATE), (''catchingup'', CATCHINGUP_STATE),
      (''secondary'', SECONDARY_STATE), (''prepare_promotion'', PREPARE_PROMOTION_STATE),
      (''stop_replication'', STOP_REPLICATION_STATE), (''demoted'', DEMOTED_STATE),
      (''demote_timeout'', DEMOTE_TIMEOUT_STATE), (''draining'', DRAINING_STATE),
      (''report_lsn'', REPORT_LSN_STATE), (''maintenance'', MAINTENANCE_STATE),
      (''join_primary'', JOIN_PRIMARY_STATE), (''apply_settings'', APPLY_SETTINGS_STATE),
      (''fast_forward'', FAST_FORWARD_STATE), (''dropped'', DROPPED_STATE)]"

text \<open>Modelled from the spec: \<open>NodeStateFromString\<close>, tolerant of unknown roles.\<close>

definition spec_NodeStateFromString :: "string \<Rightarrow> NodeState" where
  "spec_NodeStateFromString str =
     (case map_of role_names str of Some role \<Rightarrow> role | None \<Rightarrow> NO_STATE)"

text \<open>Modelled from the spec: \<open>NodeStateToString\<close>, the lowercase identifier of a role.\<close>

definition spec_NodeStateToString :: "NodeState \<Rightarrow> string" where
  "spec_NodeStateToString role =
     (case find (\<lambda>entry. snd entry = role) role_names of
        Some entry \<Rightarrow> fst entry
      | None \<Rightarrow> ''unknown'')"

text \<open>The fields of a payload between separators, and a decimal number.\<close>

fun split_on :: "char \<Rightarrow> string \<Rightarrow> string list" where
  "split_on sep [] = [[]]"
| "split_on sep (c # cs) =
     (if c = sep then [] # split_on sep cs
      else (case split_on sep cs of
              [] \<Rightarrow> [[c]]
            | piece # pieces \<Rightarrow> (c # piece) # pieces))"

definition is_digit :: "char \<Rightarrow> bool" where
  "is_digit c = (48 \<le> (of_char c :: nat) \<and> (of_char c :: nat) \<le> 57)"

definition decimal :: "string \<Rightarrow> int option" where
  "decimal s =
     (if s \<noteq> [] \<and> list_all is_digit s
      then Some (foldl (\<lambda>n c. 10 * n + (of_char c - 48)) 0 s)
      else None)"

text \<open>
  Modelled from the spec: \<open>parse_state_notification_message\<close> (parsing.c is not part of the
  sources). A payload on the state channel has the form
  \<open>S:<reported_state>:<goal_state>:<node_id>.<formation>:<group_id>:<node_id>:<nodename>:<port>\<close>;
  the parser returns a boolean and fills the record, and a role it does not know is
  \<open>unknown\<close>. A payload of another form leaves the record as it was.
\<close>

definition spec_parse_state_notification_message ::
  "StateNotification \<Rightarrow> bool \<times> StateNotification" where
  "spec_parse_state_notification_message notification =
     (case split_on CHR '':'' (message notification) of
        [tag, reported, goal, node_formation, groupField, nodeField, nameField, portField] \<Rightarrow>
          (case (decimal (takeWhile (\<lambda>c. c \<noteq> CHR ''.'') node_formation),
                 decimal groupField, decimal nodeField, decimal portField) of
             (Some n0, Some g, Some n, Some p) \<Rightarrow>
               if tag = ''S'' \<and> CHR ''.'' \<in> set node_formation
               then (True,
                     notification
                       \<lparr>reportedState := spec_NodeStateFromString reported,
                        goalState := spec_NodeStateFromString goal,
                        formationId := tl (dropWhile (\<lambda>c. c \<noteq> CHR ''.'') node_formation),
                        notification_groupId := g,
                        notification_nodeId := n,
                        nodeName := nameField,
                        nodePort := p\<rparr>)
               else (False, notification)
           | _ \<Rightarrow> (False, notification))
      | _ \<Rightarrow> (False, notification))"

subsection \<open>The supervisor's restart policies\<close>

text \<open>\<open>RestartPolicy\<close> and the fields of \<open>Service\<close> are those of supervisor.h.\<close>

datatype RestartPolicy = RP_PERMANENT | RP_TEMPORARY | RP_TRANSIENT

record Service =
  name :: string
  policy :: RestartPolicy
  pid :: int
  retries :: int
  startTime :: nat
  stopTime :: nat

text \<open>How a service process ended, as \<open>waitpid\<close> reports it.\<close>

datatype exit_status = Exited int | Signaled int

text \<open>
  Modelled from the spec: what the supervisor takes for an abnormal exit (supervisor.c
  is not part of the sources). The specification: permanent, restart on any exit;
  transient, restart only on abnormal exit (non-zero or signaled); temporary, never
  restart.
\<close>

definition abnormal_exit :: "exit_status \<Rightarrow> bool" where
  "abnormal_exit status =
     (case status of Exited code \<Rightarrow> code \<noteq> EXIT_CODE_QUIT | Signaled sig \<Rightarrow> True)"

text \<open>
  Modelled from the spec: the restart decision of the supervisor (supervisor.c), by the
  policy of the service.
\<close>

definition supervisor_restarts :: "Service \<Rightarrow> exit_status \<Rightarrow> bool" where
  "supervisor_restarts service status =
     (case policy service of
        RP_PERMANENT \<Rightarrow> True
      | RP_TEMPORARY \<Rightarrow> False
      | RP_TRANSIENT \<Rightarrow> abnormal_exit status)"

subsection \<open>Concrete inputs for the command line\<close>

text \<open>The state of a process that has just started: \<open>stop_signal\<close> is \<open>SIGTERM\<close>.\<close>

definition initial_cli_state :: cli_state where
  "initial_cli_state =
     \<lparr>stop_signal = SIGTERM, keeperOptions = zero_KeeperConfig, outputJSON = False,
      log_level = LOG_INFO, cli_log = [], printed = [], kill_calls = []\<rparr>"

text \<open>
  An environment in which the configuration is read, the PID file holds 4242, \<open>kill\<close>
  succeeds, the monitor answers every call but \<open>node_active\<close> and \<open>get_primary\<close>, and the
  parser and the role names are those modelled from the specification.
\<close>

definition example_cli_env :: cli_env where
  "example_cli_env =
     \<lparr>prepare_keeper_options = (\<lambda>options. options\<lparr>pathnames_pid := ''pg_autoctl.pid''\<rparr>),
      keeper_cli_print_version = 0,
      read_pidfile = (\<lambda>path. if path = ''pg_autoctl.pid'' then Some 4242 else None),
      kill_succeeds = (\<lambda>pid sig. True),
      strsignal = (\<lambda>sig. ''signal''),
      keeper_config_read_file =
        (\<lambda>config missingPgdataIsOk pgIsNotRunningIsOk monitorDisabledIsOk.
           Some (config\<lparr>formation := ''default'', nodename := ''localhost'',
                        pgSetup_pgport := 5432\<rparr>)),
      monitor_init = (\<lambda>pguri. True),
      monitor_get_primary = (\<lambda>formation groupId. None),
      monitor_get_coordinator =
        (\<lambda>formation. Some \<lparr>nodeId = 1, host = ''coordinator'', port = 5432\<rparr>),
      monitor_print_other_nodes_as_json = (\<lambda>nodename port. Some (JSON_Object [])),
      monitor_print_other_nodes = (\<lambda>nodename port. Some []),
      keeper_init =
        (\<lambda>config. Some \<lparr>current_node_id = 1, current_group = 0, current_role = SINGLE_STATE,
                          pgIsRunning = True, currentLSN = ''0/0'', pgsrSyncState = []\<rparr>),
      keeper_update_pg_state = (\<lambda>keeper. keeper),
      monitor_node_active =
        (\<lambda>formation nodename port nodeId groupId role running lsn sync. None),
      keeper_update_state = (\<lambda>keeper nodeId groupId role update. True),
      monitor_init_from_pgsetup = (\<lambda>config. True),
      monitor_ensure_extension_version = Some ''1.3'',
      parse_state_notification_message = spec_parse_state_notification_message,
      NodeStateToString = spec_NodeStateToString\<rparr>"

section \<open>Properties of pghba.c\<close>

subsection \<open>escape\_hba\_string\<close>

lemma length_doubled_quotes: "length (doubled_quotes s) = length s + count_list s dquote"
  by (induction s) (auto simp: doubled_quotes_def)

lemma put_Some:
  "n < length d \<Longrightarrow> put (d, n) c = Some (take n d @ c # drop (Suc n) d, Suc n)"
  by (simp add: put_def upd_conv_take_nth_drop)

lemma escape_loop_Some:
  "n + length (doubled_quotes s) \<le> length d \<Longrightarrow>
   escape_loop s (d, n) =
     Some (take n d @ doubled_quotes s @ drop (n + length (doubled_quotes s)) d,
           n + length (doubled_quotes s))"
proof (induction s arbitrary: d n)
  case Nil
  then show ?case by (simp add: doubled_quotes_def)
next
  case (Cons c s)
  show ?case
  proof (cases "c = dquote")
    case True
    have len: "Suc (Suc (n + length (doubled_quotes s))) \<le> length d"
      using Cons.prems True by (simp add: doubled_quotes_def)
    let ?d1 = "take n d @ dquote # drop (Suc n) d"
    let ?d2 = "take (Suc n) ?d1 @ c # drop (Suc (Suc n)) ?d1"
    have p1: "put (d, n) dquote = Some (?d1, Suc n)" using len by (intro put_Some) simp
    have p2: "put (?d1, Suc n) c = Some (?d2, Suc (Suc n))" using len by (intro put_Some) simp
    have ih: "escape_loop s (?d2, Suc (Suc n)) =
       Some (take (Suc (Suc n)) ?d2 @ doubled_quotes s @ drop (Suc (Suc n) + length (doubled_quotes s)) ?d2,
             Suc (Suc n) + length (doubled_quotes s))"
      using len by (intro Cons.IH) simp
    have t: "take (Suc (Suc n)) ?d2 = take n d @ [dquote, dquote]"
      using len True by (simp add: take_Suc_conv_app_nth min_def)
    have dr: "drop (Suc (Suc n) + length (doubled_quotes s)) ?d2 = drop (Suc (Suc n) + length (doubled_quotes s)) d"
      using len by (simp add: min_def add.commute)
    show ?thesis using True p1 p2 ih t dr by (simp add: doubled_quotes_def)
  next
    case False
    have len: "Suc (n + length (doubled_quotes s)) \<le> length d"
      using Cons.prems False by (simp add: doubled_quotes_def)
    let ?d1 = "take n d @ c # drop (Suc n) d"
    have p1: "put (d, n) c = Some (?d1, Suc n)" using len by (intro put_Some) simp
    have ih: "escape_loop s (?d1, Suc n) =
       Some (take (Suc n) ?d1 @ doubled_quotes s @ drop (Suc n + length (doubled_quotes s)) ?d1,
             Suc n + length (doubled_quotes s))"
      using len by (intro Cons.IH) simp
    have t: "take (Suc n) ?d1 = take n d @ [c]"
      using len by (simp add: min_def)
    have dr: "drop (Suc n + length (doubled_quotes s)) ?d1 = drop (Suc n + length (doubled_quotes s)) d"
      using len by (simp add: min_def add.commute)
    show ?thesis using False p1 ih t dr by (simp add: doubled_quotes_def)
  qed
qed

lemma escape_hba_string_Some:
  assumes "length s + count_list s dquote + 3 \<le> length destination"
  shows "escape_hba_string destination s =
     Some (quoted_form s @ NUL # drop (length s + count_list s dquote + 3) destination,
           length s + count_list s dquote + 2)"
proof -
  let ?k = "length (doubled_quotes s)"
  have k: "?k = length s + count_list s dquote" by (rule length_doubled_quotes)
  have len: "?k + 3 \<le> length destination" using assms k by simp
  let ?d1 = "take 0 destination @ dquote # drop (Suc 0) destination"
  have p1: "put (destination, 0) dquote = Some (?d1, Suc 0)"
    using len by (intro put_Some) (cases destination, simp_all)
  let ?d2 = "take (Suc 0) ?d1 @ doubled_quotes s @ drop (Suc 0 + ?k) ?d1"
  have l2: "escape_loop s (?d1, Suc 0) = Some (?d2, Suc 0 + ?k)"
    using len by (intro escape_loop_Some) simp
  have d2: "?d2 = dquote # doubled_quotes s @ drop (Suc ?k) destination"
    using len by simp
  let ?d3 = "take (Suc ?k) ?d2 @ dquote # drop (Suc (Suc ?k)) ?d2"
  have p3: "put (?d2, Suc 0 + ?k) dquote = Some (?d3, Suc (Suc ?k))"
    using len put_Some [of "Suc ?k" ?d2 dquote] by simp
  have d3: "?d3 = quoted_form s @ drop (Suc (Suc ?k)) destination"
    using len by (simp add: d2 quoted_form_def)
  have l3: "Suc (Suc ?k) < length ?d3" using len by (simp add: d3 quoted_form_def)
  have e3: "?k + 3 = Suc (Suc (Suc ?k))" by simp
  have upd: "?d3[Suc (Suc ?k) := NUL] = quoted_form s @ NUL # drop (?k + 3) destination"
    unfolding e3 using len by (simp add: d3 quoted_form_def list_update_append upd_conv_take_nth_drop)
  show ?thesis
    unfolding escape_hba_string_def using p1 l2 p3 l3 upd k by simp
qed

lemma escape_loop_None:
  "n \<le> length d \<Longrightarrow> length d < n + length (doubled_quotes s) \<Longrightarrow> escape_loop s (d, n) = None"
proof (induction s arbitrary: d n)
  case Nil
  then show ?case by (simp add: doubled_quotes_def)
next
  case (Cons c s)
  show ?case
  proof (cases "n < length d")
    case False
    then show ?thesis by (simp add: put_def)
  next
    case n: True
    show ?thesis
    proof (cases "c = dquote")
      case True
      have k: "length (doubled_quotes (c # s)) = Suc (Suc (length (doubled_quotes s)))"
        using True by (simp add: doubled_quotes_def)
      show ?thesis
      proof (cases "Suc n < length d")
        case False
        then show ?thesis using n True by (simp add: put_def)
      next
        case sn: True
        have "escape_loop s (d[n := dquote, Suc n := c], Suc (Suc n)) = None"
          using sn Cons.prems k by (intro Cons.IH) simp_all
        then show ?thesis using n sn True by (simp add: put_def)
      qed
    next
      case False
      have k: "length (doubled_quotes (c # s)) = Suc (length (doubled_quotes s))"
        using False by (simp add: doubled_quotes_def)
      have "escape_loop s (d[n := c], Suc n) = None"
        using n Cons.prems k by (intro Cons.IH) simp_all
      then show ?thesis using n False by (simp add: put_def)
    qed
  qed
qed

lemma escape_hba_string_None:
  assumes "length destination < length s + count_list s dquote + 3"
  shows "escape_hba_string destination s = None"
proof -
  let ?k = "length (doubled_quotes s)"
  have k: "?k = length s + count_list s dquote" by (rule length_doubled_quotes)
  show ?thesis
  proof (cases "0 < length destination")
    case False
    then show ?thesis by (simp add: escape_hba_string_def put_def)
  next
    case pos: True
    have p1: "put (destination, 0) dquote = Some (destination[0 := dquote], Suc 0)"
      using pos by (simp add: put_def)
    show ?thesis
    proof (cases "Suc ?k \<le> length destination")
      case False
      have "escape_loop s (destination[0 := dquote], Suc 0) = None"
        using False pos by (intro escape_loop_None) (simp_all add: Suc_le_eq)
      then show ?thesis by (simp add: escape_hba_string_def p1)
    next
      case True
      obtain d2 where l2: "escape_loop s (destination[0 := dquote], Suc 0) = Some (d2, Suc ?k)"
        and len2: "length d2 = length destination"
        using escape_loop_Some [of "Suc 0" s "destination[0 := dquote]"] True by simp
      show ?thesis
      proof (cases "Suc ?k < length destination")
        case False
        then show ?thesis by (simp add: escape_hba_string_def p1 l2 put_def len2)
      next
        case lt: True
        have "\<not> Suc (Suc ?k) < length destination" using assms k by simp
        then show ?thesis using lt by (simp add: escape_hba_string_def p1 l2 put_def len2)
      qed
    qed
  qed
qed

lemma dquote_not_NUL: "dquote \<noteq> NUL"
  by (simp add: dquote_def NUL_def)

lemma set_doubled_quotes: "set (doubled_quotes s) = set s"
  by (induction s) (auto simp: doubled_quotes_def)

lemma is_c_string_quoted_form: "is_c_string s \<Longrightarrow> is_c_string (quoted_form s)"
  using dquote_not_NUL by (auto simp: is_c_string_def quoted_form_def set_doubled_quotes)

lemma c_str_append_NUL: "is_c_string s \<Longrightarrow> c_str (s @ NUL # rest) = s"
  by (induction s) (auto simp: c_str_def is_c_string_def)

lemma escaped_in_buffer_Some:
  assumes "escaped_in_buffer s = Some e" and "is_c_string s"
  shows "e = quoted_form s \<and> length s + count_list s dquote + 3 \<le> BUFSIZE"
proof (cases "length s + count_list s dquote + 3 \<le> BUFSIZE")
  case True
  then have "escape_hba_string (replicate BUFSIZE NUL) s =
     Some (quoted_form s @ NUL # drop (length s + count_list s dquote + 3) (replicate BUFSIZE NUL),
           length s + count_list s dquote + 2)"
    by (intro escape_hba_string_Some) simp
  then show ?thesis
    using assms True
    by (simp add: escaped_in_buffer_def c_str_append_NUL is_c_string_quoted_form)
next
  case False
  then have "escape_hba_string (replicate BUFSIZE NUL) s = None"
    by (intro escape_hba_string_None) simp
  then show ?thesis using assms by (simp add: escaped_in_buffer_def)
qed

lemma escaped_in_buffer_fits:
  assumes "is_c_string s" and "length s + count_list s dquote + 3 \<le> BUFSIZE"
  shows "escaped_in_buffer s = Some (quoted_form s)"
proof -
  have "escape_hba_string (replicate BUFSIZE NUL) s =
     Some (quoted_form s @ NUL # drop (length s + count_list s dquote + 3) (replicate BUFSIZE NUL),
           length s + count_list s dquote + 2)"
    using assms by (intro escape_hba_string_Some) simp
  then show ?thesis
    using assms by (simp add: escaped_in_buffer_def c_str_append_NUL is_c_string_quoted_form)
qed

lemma pghba_append_rule_to_buffer_eq:
  assumes "pghba_append_rule_to_buffer env buffer ssl databaseType database username h auth = Some line"
      and "\<And>d. database = Some d \<Longrightarrow> is_c_string d"
      and "\<And>u. username = Some u \<Longrightarrow> is_c_string u"
  shows "line = buffer @ hba_rule env ssl databaseType database username h auth"
  using assms
  by (auto simp: pghba_append_rule_to_buffer_def append_database_field_def
        append_hostname_or_cidr_def hba_rule_def host_type_field_def database_field_def
        user_field_def address_field_def Let_def
      dest!: escaped_in_buffer_Some
      split: HBADatabaseType.splits option.splits IPType.splits if_splits)

text \<open>
  C9: when the destination buffer has room for the escaped string and its terminator,
  \<open>escape_hba_string\<close> leaves in it a double quote, the string with every double quote
  doubled, a closing double quote and a NUL, touches nothing behind the NUL, and returns
  the number of characters before the NUL: the length of the string plus the number of
  its double quotes plus 2. (Without that room a store falls outside the buffer, see
  \<open>escape_hba_string_None\<close>; both callers pass a buffer of \<open>BUFSIZE\<close> bytes.)
\<close>

theorem escape_hba_string_writes_quoted_form:
  assumes "length s + count_list s dquote + 3 \<le> length destination"
  shows "escape_hba_string destination s =
           Some (quoted_form s @ NUL # drop (length s + count_list s dquote + 3) destination,
                 length s + count_list s dquote + 2)
         \<and> length (quoted_form s) = length s + count_list s dquote + 2"
  using escape_hba_string_Some [OF assms]
  by (simp add: quoted_form_def length_doubled_quotes)

theorem escape_hba_string_writes_quoted_form_witness:
  "escape_hba_string ''xxxxxxxx'' ''a\"b'' =
     Some ([dquote, CHR ''a'', dquote, dquote, CHR ''b'', dquote, NUL, CHR ''x''], 6)"
proof -
  have h: "length ''a\"b'' + count_list ''a\"b'' dquote + 3 \<le> length ''xxxxxxxx''"
    by (simp add: dquote_def)
  from escape_hba_string_writes_quoted_form [OF h] show ?thesis
    by (simp add: quoted_form_def doubled_quotes_def dquote_def)
qed

subsection \<open>The two entry points\<close>

lemma log_at_frame:
  "files (log_at l f a w) = files w"
  "write_fails (log_at l f a w) = write_fails w"
  "out_of_memory (log_at l f a w) = out_of_memory w"
  "log (log_at l f a w) = log w @ [(l, f, a)]"
  by (simp_all add: log_at_def)

lemma pghba_check_hostname_frame:
  "files (snd (pghba_check_hostname env h w)) = files w"
  "write_fails (snd (pghba_check_hostname env h w)) = write_fails w"
  "out_of_memory (snd (pghba_check_hostname env h w)) = out_of_memory w"
  by (simp_all add: pghba_check_hostname_def log_at_frame split: option.splits)

lemma hba_lines_loop_result:
  "\<exists>w'. hba_lines_loop env p auth cur ls (new, w) =
     (new @ concat (map (\<lambda>l. l @ HBA_LINE_COMMENT @ [newline])
                (filter (\<lambda>l. \<not> line_already_exists cur l \<and> \<not> SKIP_HBA env auth) ls)), w')
     \<and> files w' = files w \<and> write_fails w' = write_fails w"
proof (induction ls arbitrary: new w)
  case Nil
  then show ?case by simp
next
  case (Cons l ls)
  show ?case
  proof (cases "line_already_exists cur l")
    case True
    then show ?thesis
      using Cons.IH [of new "log_at LOG_DEBUG ''Line already exists in %s, skipping %s''
               [ArgS p, ArgS l] (log_at LOG_DEBUG ''Ensuring the HBA file \"%s\" contains the line: %s''
                    [ArgS p, ArgS l] w)"]
      by (simp add: log_at_frame)
  next
    case False
    show ?thesis
    proof (cases "SKIP_HBA env auth")
      case True
      then show ?thesis
        using False Cons.IH [of new "log_at LOG_WARN ''Skipping HBA edits (per --skip-pg-hba) for rule: %s''
                   [ArgS l] (log_at LOG_DEBUG ''Ensuring the HBA file \"%s\" contains the line: %s''
                    [ArgS p, ArgS l] w)"]
        by (simp add: log_at_frame)
    next
      case skip: False
      then show ?thesis
        using False Cons.IH [of "new @ l @ HBA_LINE_COMMENT @ [newline]"
                 "log_at LOG_DEBUG ''Ensuring the HBA file \"%s\" contains the line: %s''
                    [ArgS p, ArgS l] w"]
        by (simp add: log_at_frame)
    qed
  qed
qed

lemma hba_nodes_loop_result:
  assumes "hba_nodes_loop env p ssl database username auth cur nodes (new, w) = Some (new', w')"
      and "\<And>d. database = Some d \<Longrightarrow> is_c_string d"
      and "\<And>u. username = Some u \<Longrightarrow> is_c_string u"
  shows "new' = new @ concat (map (\<lambda>l. l @ HBA_LINE_COMMENT @ [newline])
                (filter (\<lambda>l. \<not> line_already_exists cur l \<and> \<not> SKIP_HBA env auth)
                   (concat (map (node_rules env ssl database username auth) nodes))))
         \<and> files w' = files w \<and> write_fails w' = write_fails w"
  using assms(1)
proof (induction nodes arbitrary: new w)
  case Nil
  then show ?case by simp
next
  case (Cons node nodes)
  let ?w1 = "log_at LOG_DEBUG ''pghba_ensure_host_rules_exist: %d %s:%d''
                    [ArgD (nodeId node), ArgS (host node), ArgD (port node)] w"
  let ?w2 = "if \<not> SKIP_HBA env auth then snd (pghba_check_hostname env (host node) ?w1) else ?w1"
  let ?w3 = "log_at LOG_INFO ''Ensuring HBA rules for node %d (%s:%d)''
                              [ArgD (nodeId node), ArgS (host node), ArgD (port node)] ?w2"
  from Cons.prems obtain r d where
    r: "pghba_append_rule_to_buffer env [] ssl HBA_DATABASE_REPLICATION None username (host node) auth = Some r"
    and d: "pghba_append_rule_to_buffer env [] ssl HBA_DATABASE_DBNAME database username (host node) auth = Some d"
    and rest: "hba_nodes_loop env p ssl database username auth cur nodes
                 (hba_lines_loop env p auth cur [r, d] (new, ?w3)) = Some (new', w')"
    by (auto simp: Let_def split: option.splits)
  have r': "r = hba_rule env ssl HBA_DATABASE_REPLICATION None username (host node) auth"
    using pghba_append_rule_to_buffer_eq [OF r] assms(3) by simp
  have d': "d = hba_rule env ssl HBA_DATABASE_DBNAME database username (host node) auth"
    using pghba_append_rule_to_buffer_eq [OF d] assms(2,3) by simp
  obtain wl where
    wl: "hba_lines_loop env p auth cur [r, d] (new, ?w3) =
      (new @ concat (map (\<lambda>l. l @ HBA_LINE_COMMENT @ [newline])
                (filter (\<lambda>l. \<not> line_already_exists cur l \<and> \<not> SKIP_HBA env auth) [r, d])), wl)"
    and fl: "files wl = files ?w3" "write_fails wl = write_fails ?w3"
    using hba_lines_loop_result [of env p auth cur "[r, d]" new ?w3] by blast
  have f3: "files ?w3 = files w" "write_fails ?w3 = write_fails w"
    by (simp_all add: log_at_frame pghba_check_hostname_frame)
  from Cons.IH [OF rest [unfolded wl]]
  show ?case
    using fl f3 r' d' by (simp add: node_rules_def)
qed

lemma pghba_ensure_host_rules_exist_result:
  assumes "pghba_ensure_host_rules_exist env p nodes ssl database username auth w = Some (r, w')"
      and "\<not> out_of_memory w" and "files w p = Some bytes"
      and "\<And>d. database = Some d \<Longrightarrow> is_c_string d"
      and "\<And>u. username = Some u \<Longrightarrow> is_c_string u"
  shows "r = (\<not> write_fails w)"
    and "r \<Longrightarrow> files w' = (files w)(p \<mapsto> c_str bytes @
           concat (map (\<lambda>l. l @ HBA_LINE_COMMENT @ [newline])
                (filter (\<lambda>l. \<not> line_already_exists (c_str bytes) l \<and> \<not> SKIP_HBA env auth)
                   (concat (map (node_rules env ssl database username auth) nodes)))))"
    and "\<not> r \<Longrightarrow> files w' = files w"
proof -
  from assms(1-3) obtain new w1 where
    loop: "hba_nodes_loop env p ssl database username auth (c_str bytes) nodes (c_str bytes, w) = Some (new, w1)"
    and res: "(r, w') = (if write_fails w1 then (False, w1)
                else (True, log_at LOG_DEBUG ''Wrote new %s'' [ArgS p] (w1\<lparr>files := (files w1)(p \<mapsto> new)\<rparr>)))"
    by (auto simp: pghba_ensure_host_rules_exist_def Let_def split: option.splits if_splits)
  note L = hba_nodes_loop_result [OF loop assms(4,5)]
  show "r = (\<not> write_fails w)" using res L by (auto split: if_splits)
  show "r \<Longrightarrow> files w' = (files w)(p \<mapsto> c_str bytes @
           concat (map (\<lambda>l. l @ HBA_LINE_COMMENT @ [newline])
                (filter (\<lambda>l. \<not> line_already_exists (c_str bytes) l \<and> \<not> SKIP_HBA env auth)
                   (concat (map (node_rules env ssl database username auth) nodes)))))"
    using res L by (auto simp: log_at_frame split: if_splits)
  show "\<not> r \<Longrightarrow> files w' = files w" using res L by (auto split: if_splits)
qed

lemma example_env_simps:
  "ip_address_type example_env h = (if h = ''10.0.0.1'' then IPTYPE_V4 else IPTYPE_NONE)"
  "SKIP_HBA example_env a = (a = ''skip'')"
  "resolveHostnameForwardAndReverse example_env h = None"
  by (simp_all add: example_env_def)

lemma rule_line_example:
  "pghba_append_rule_to_buffer example_env [] False HBA_DATABASE_ALL None None ''10.0.0.1'' ''trust''
     = Some ''host all all 10.0.0.1/32 trust''"
  by (simp add: pghba_append_rule_to_buffer_def append_database_field_def
        append_hostname_or_cidr_def example_env_simps)

lemma strstr_Some: "strstr hay needle = Some i \<Longrightarrow> i \<le> length hay \<and> prefix needle (drop i hay)"
proof (induction hay arbitrary: i)
  case Nil
  then show ?case by (simp split: if_splits)
next
  case (Cons h hs)
  show ?case
  proof (cases "prefix needle (h # hs)")
    case True
    then show ?thesis using Cons.prems by simp
  next
    case False
    then obtain j where j: "strstr hs needle = Some j" and i: "i = Suc j"
      using Cons.prems by auto
    from Cons.IH [OF j] show ?thesis using i by simp
  qed
qed

lemma line_already_exists_occurs:
  "line_already_exists contents line \<Longrightarrow> occurs_at_line_start contents line"
  unfolding line_already_exists_def occurs_at_line_start_def
  by (auto split: option.splits dest!: strstr_Some)

lemma pghba_ensure_host_rule_exists_result:
  assumes "pghba_append_rule_to_buffer env [] ssl databaseType database username h auth = Some hbaLine"
      and "\<not> out_of_memory w" and "files w p = Some bytes"
  shows "pghba_ensure_host_rule_exists env p ssl databaseType database username h auth w =
     (let w1 = log_at LOG_DEBUG ''Ensuring the HBA file \"%s\" contains the line: %s''
                 [ArgS p, ArgS hbaLine] w in
      if line_already_exists (c_str bytes) hbaLine
      then Some (True, log_at LOG_DEBUG ''Line already exists in %s, skipping %s''
                         [ArgS p, ArgS hbaLine] w1)
      else if SKIP_HBA env auth
      then Some (True, log_at LOG_WARN ''Skipping HBA edits (per --skip-pg-hba) for rule: %s''
                         [ArgS hbaLine] w1)
      else
        (let w2 = snd (pghba_check_hostname env h w1) in
         if write_fails w
         then Some (False, w2)
         else Some (True, log_at LOG_DEBUG ''Wrote new %s'' [ArgS p]
                (w2\<lparr>files := (files w)(p \<mapsto> c_str bytes @ hbaLine @ HBA_LINE_COMMENT @ [newline])\<rparr>))))"
  using assms
  by (simp add: pghba_ensure_host_rule_exists_def Let_def log_at_frame pghba_check_hostname_frame)

subsection \<open>Claims about pghba.c\<close>

text \<open>
  C1 (the second of two calls is a no-op) does not hold of the code. \<open>strstr\<close> gives the
  first occurrence of the rule only: when that one is not at the start of a line (here
  the rule was commented out), the copy that the first call appended at a line start is
  never looked at, and the second call appends the rule once more. Both calls return
  true; the file after the second call is one line longer than after the first. On a
  file in which the rule does not occur, the same two calls leave the same contents.
\<close>

theorem second_call_appends_again:
  "call_twice ''pg_hba.conf''
     (pghba_ensure_host_rule_exists example_env ''pg_hba.conf'' False HBA_DATABASE_ALL
        None None ''10.0.0.1'' ''trust'') hba_with_commented_rule =
     Some ((True, Some (''#host all all 10.0.0.1/32 trust'' @ [newline] @
                   ''host all all 10.0.0.1/32 trust # Auto-generated by pg_auto_failover'' @
                   [newline])),
           (True, Some (''#host all all 10.0.0.1/32 trust'' @ [newline] @
                   ''host all all 10.0.0.1/32 trust # Auto-generated by pg_auto_failover'' @
                   [newline] @
                   ''host all all 10.0.0.1/32 trust # Auto-generated by pg_auto_failover'' @
                   [newline])))
   \<and> call_twice ''pg_hba.conf''
     (pghba_ensure_host_rule_exists example_env ''pg_hba.conf'' False HBA_DATABASE_ALL
        None None ''10.0.0.1'' ''trust'') hba_local_only =
     Some ((True, Some (''local all all trust'' @ [newline] @
                   ''host all all 10.0.0.1/32 trust # Auto-generated by pg_auto_failover'' @
                   [newline])),
           (True, Some (''local all all trust'' @ [newline] @
                   ''host all all 10.0.0.1/32 trust # Auto-generated by pg_auto_failover'' @
                   [newline])))"
  by (simp add: call_twice_def pghba_ensure_host_rule_exists_def rule_line_example
        hba_with_commented_rule_def hba_local_only_def log_at_def c_str_def NUL_def newline_def
        line_already_exists_def pghba_check_hostname_def example_env_simps
        HBA_LINE_COMMENT_def Let_def)

text \<open>
  C10: with the skip marker as authentication scheme, on a readable file and with the rule
  line built, \<open>pghba_ensure_host_rule_exists\<close> returns true and leaves every file as it
  was. It logs the debug line that names the rule and then one more entry: the warning
  that the edit is skipped, or, when the rule is already at a line start, the debug line
  that says so.
\<close>

theorem skip_pg_hba_leaves_file_unchanged:
  assumes "SKIP_HBA env authenticationScheme"
      and "\<not> out_of_memory w"
      and "files w hbaFilePath = Some bytes"
      and "pghba_append_rule_to_buffer env [] ssl databaseType database username h
             authenticationScheme = Some hbaLine"
  shows "\<exists>w'. pghba_ensure_host_rule_exists env hbaFilePath ssl databaseType database username h
                 authenticationScheme w = Some (True, w')
           \<and> files w' = files w
           \<and> log w' = log w @
                [(LOG_DEBUG, ''Ensuring the HBA file \"%s\" contains the line: %s'',
                  [ArgS hbaFilePath, ArgS hbaLine]),
                 if line_already_exists (c_str bytes) hbaLine
                 then (LOG_DEBUG, ''Line already exists in %s, skipping %s'',
                       [ArgS hbaFilePath, ArgS hbaLine])
                 else (LOG_WARN, ''Skipping HBA edits (per --skip-pg-hba) for rule: %s'',
                       [ArgS hbaLine])]"
  using assms(1)
  by (simp add: pghba_ensure_host_rule_exists_result [OF assms(4,2,3)] Let_def log_at_frame)

theorem skip_pg_hba_leaves_file_unchanged_witness:
  "SKIP_HBA example_env ''skip'' \<and>
   returned_and_file ''pg_hba.conf''
     (pghba_ensure_host_rule_exists example_env ''pg_hba.conf'' False HBA_DATABASE_ALL None None
        ''10.0.0.1'' ''skip'' hba_local_only) =
     Some (True, Some (''local all all trust'' @ [newline]))"
proof -
  have h1: "SKIP_HBA example_env ''skip''" by (simp add: example_env_simps)
  have h2: "\<not> out_of_memory hba_local_only" by (simp add: hba_local_only_def)
  have h3: "files hba_local_only ''pg_hba.conf'' = Some (''local all all trust'' @ [newline])"
    by (simp add: hba_local_only_def)
  have h4: "pghba_append_rule_to_buffer example_env [] False HBA_DATABASE_ALL None None
              ''10.0.0.1'' ''skip'' = Some ''host all all 10.0.0.1/32 skip''"
    by (simp add: pghba_append_rule_to_buffer_def append_database_field_def
          append_hostname_or_cidr_def example_env_simps)
  from skip_pg_hba_leaves_file_unchanged [OF h1 h2 h3 h4]
  show ?thesis using h1 h3 by (auto simp: returned_and_file_def)
qed

text \<open>
  C2: the rule line that \<open>pghba_append_rule_to_buffer\<close> builds starts with \<open>hostssl\<close> when
  the ssl flag is set and with \<open>host\<close> otherwise, and its address field, between the user
  field and the authentication scheme, is the host followed by \<open>/32\<close> for an IPv4 address,
  by \<open>/128\<close> for an IPv6 address, and the bare host otherwise. Whatever
  \<open>pghba_ensure_host_rule_exists\<close> and \<open>pghba_ensure_host_rules_exist\<close> add to the file is
  a sequence of rule lines, each followed by the comment
  \<open># Auto-generated by pg_auto_failover\<close> and a newline.
\<close>

theorem hba_rule_line_format:
  assumes "pghba_append_rule_to_buffer env [] ssl databaseType database username h
             authenticationScheme = Some hbaLine"
      and "\<And>d. database = Some d \<Longrightarrow> is_c_string d"
      and "\<And>u. username = Some u \<Longrightarrow> is_c_string u"
      and "\<not> out_of_memory w"
      and "files w hbaFilePath = Some bytes"
  shows "hbaLine =
           (if ssl then ''hostssl'' else ''host'') @ '' '' @
           database_field databaseType database @ '' '' @ user_field username @ '' '' @
           (case ip_address_type env h of
              IPTYPE_V4 \<Rightarrow> h @ ''/32''
            | IPTYPE_V6 \<Rightarrow> h @ ''/128''
            | IPTYPE_NONE \<Rightarrow> h) @ '' '' @ authenticationScheme
         \<and> (\<exists>r w'. pghba_ensure_host_rule_exists env hbaFilePath ssl databaseType database
                       username h authenticationScheme w = Some (r, w')
                \<and> (files w' = files w
                    \<or> files w' = (files w)(hbaFilePath \<mapsto>
                         c_str bytes @ hbaLine @ '' # Auto-generated by pg_auto_failover'' @
                         [newline])))
         \<and> (\<forall>nodes r w'.
               pghba_ensure_host_rules_exist env hbaFilePath nodes ssl database username
                 authenticationScheme w = Some (r, w') \<longrightarrow>
               (\<exists>appended.
                  set appended \<subseteq>
                    (\<Union>node \<in> set nodes.
                       set (node_rules env ssl database username authenticationScheme node))
                  \<and> (files w' = files w
                      \<or> files w' = (files w)(hbaFilePath \<mapsto>
                           c_str bytes @
                           concat (map (\<lambda>l. l @ '' # Auto-generated by pg_auto_failover'' @
                                           [newline]) appended)))))"
proof (intro conjI allI impI)
  show "hbaLine =
           (if ssl then ''hostssl'' else ''host'') @ '' '' @
           database_field databaseType database @ '' '' @ user_field username @ '' '' @
           (case ip_address_type env h of
              IPTYPE_V4 \<Rightarrow> h @ ''/32''
            | IPTYPE_V6 \<Rightarrow> h @ ''/128''
            | IPTYPE_NONE \<Rightarrow> h) @ '' '' @ authenticationScheme"
    using pghba_append_rule_to_buffer_eq [OF assms(1-3)]
    by (simp add: hba_rule_def host_type_field_def address_field_def)
next
  show "\<exists>r w'. pghba_ensure_host_rule_exists env hbaFilePath ssl databaseType database
                       username h authenticationScheme w = Some (r, w')
                \<and> (files w' = files w
                    \<or> files w' = (files w)(hbaFilePath \<mapsto>
                         c_str bytes @ hbaLine @ '' # Auto-generated by pg_auto_failover'' @
                         [newline]))"
    by (auto simp: pghba_ensure_host_rule_exists_result [OF assms(1,4,5)] Let_def log_at_frame
          pghba_check_hostname_frame HBA_LINE_COMMENT_def)
next
  fix nodes r w'
  assume call: "pghba_ensure_host_rules_exist env hbaFilePath nodes ssl database username
                  authenticationScheme w = Some (r, w')"
  note R = pghba_ensure_host_rules_exist_result [OF call assms(4,5,2,3)]
  let ?appended = "filter (\<lambda>l. \<not> line_already_exists (c_str bytes) l \<and>
                              \<not> SKIP_HBA env authenticationScheme)
                     (concat (map (node_rules env ssl database username authenticationScheme) nodes))"
  have sub: "set ?appended \<subseteq>
               (\<Union>node \<in> set nodes.
                  set (node_rules env ssl database username authenticationScheme node))"
    by auto
  have "files w' = files w
        \<or> files w' = (files w)(hbaFilePath \<mapsto>
             c_str bytes @
             concat (map (\<lambda>l. l @ '' # Auto-generated by pg_auto_failover'' @ [newline])
                       ?appended))"
    using R(2,3) by (cases r) (simp_all add: HBA_LINE_COMMENT_def)
  with sub show "\<exists>appended.
                  set appended \<subseteq>
                    (\<Union>node \<in> set nodes.
                       set (node_rules env ssl database username authenticationScheme node))
                  \<and> (files w' = files w
                      \<or> files w' = (files w)(hbaFilePath \<mapsto>
                           c_str bytes @
                           concat (map (\<lambda>l. l @ '' # Auto-generated by pg_auto_failover'' @
                                           [newline]) appended)))"
    by blast
qed

theorem hba_rule_line_format_witness:
  "pghba_append_rule_to_buffer example_env [] True HBA_DATABASE_REPLICATION None (Some ''u'')
     ''10.0.0.1'' ''trust'' =
     Some (''hostssl replication '' @ [dquote, CHR ''u'', dquote] @ '' 10.0.0.1/32 trust'')
   \<and> returned_and_file ''pg_hba.conf''
       (pghba_ensure_host_rule_exists example_env ''pg_hba.conf'' True HBA_DATABASE_REPLICATION
          None (Some ''u'') ''10.0.0.1'' ''trust'' hba_local_only) =
     Some (True,
           Some (''local all all trust'' @ [newline] @
                 ''hostssl replication '' @ [dquote, CHR ''u'', dquote] @
                 '' 10.0.0.1/32 trust # Auto-generated by pg_auto_failover'' @ [newline]))"
proof -
  have u: "escaped_in_buffer ''u'' = Some (quoted_form ''u'')"
    by (rule escaped_in_buffer_fits) (simp_all add: is_c_string_def NUL_def dquote_def BUFSIZE_def)
  have h1: "pghba_append_rule_to_buffer example_env [] True HBA_DATABASE_REPLICATION None
              (Some ''u'') ''10.0.0.1'' ''trust'' =
            Some (''hostssl replication '' @ [dquote, CHR ''u'', dquote] @ '' 10.0.0.1/32 trust'')"
    by (simp add: pghba_append_rule_to_buffer_def append_database_field_def
          append_hostname_or_cidr_def example_env_simps u quoted_form_def doubled_quotes_def
          dquote_def)
  have h2: "\<And>d. (None :: string option) = Some d \<Longrightarrow> is_c_string d" by simp
  have h3: "\<And>v. Some ''u'' = Some v \<Longrightarrow> is_c_string v"
    by (auto simp: is_c_string_def NUL_def)
  have h4: "\<not> out_of_memory hba_local_only" by (simp add: hba_local_only_def)
  have h5: "files hba_local_only ''pg_hba.conf'' = Some (''local all all trust'' @ [newline])"
    by (simp add: hba_local_only_def)
  have w: "write_fails hba_local_only = False" by (simp add: hba_local_only_def)
  from hba_rule_line_format [OF h1 h2 h3 h4 h5]
  show ?thesis
    using h1
    by (simp add: returned_and_file_def pghba_ensure_host_rule_exists_result [OF h1 h4 h5]
          Let_def log_at_frame pghba_check_hostname_frame example_env_simps w
          line_already_exists_def c_str_def NUL_def newline_def dquote_def HBA_LINE_COMMENT_def)
qed

text \<open>
  C3 as stated (after the call every node has its two rules in the file) fails under
  \<open>--skip-pg-hba\<close>: with the skip marker as authentication scheme the call succeeds and
  appends nothing. Here the file is empty before and after, and the node's replication
  rule is not in it.
\<close>

theorem skip_marker_appends_no_rule:
  "returned_and_file ''pg_hba.conf''
     (pghba_ensure_host_rules_exist example_env ''pg_hba.conf''
        [\<lparr>nodeId = 1, host = ''node1'', port = 5432\<rparr>] False
        (Some ''postgres'') (Some ''replicator'') ''skip'' hba_empty) =
     Some (True, Some [])
   \<and> \<not> occurs_at_line_start []
         (hba_rule example_env False HBA_DATABASE_REPLICATION None (Some ''replicator'')
            ''node1'' ''skip'')"
proof -
  have u: "escaped_in_buffer ''replicator'' = Some (quoted_form ''replicator'')"
    by (rule escaped_in_buffer_fits) (simp_all add: is_c_string_def NUL_def dquote_def BUFSIZE_def)
  have d: "escaped_in_buffer ''postgres'' = Some (quoted_form ''postgres'')"
    by (rule escaped_in_buffer_fits) (simp_all add: is_c_string_def NUL_def dquote_def BUFSIZE_def)
  have call: "returned_and_file ''pg_hba.conf''
     (pghba_ensure_host_rules_exist example_env ''pg_hba.conf''
        [\<lparr>nodeId = 1, host = ''node1'', port = 5432\<rparr>] False
        (Some ''postgres'') (Some ''replicator'') ''skip'' hba_empty) =
     Some (True, Some [])"
    by (simp add: returned_and_file_def pghba_ensure_host_rules_exist_def hba_empty_def
          pghba_append_rule_to_buffer_def append_database_field_def append_hostname_or_cidr_def
          example_env_simps u d log_at_def c_str_def line_already_exists_def Let_def)
  have absent: "\<not> occurs_at_line_start []
         (hba_rule example_env False HBA_DATABASE_REPLICATION None (Some ''replicator'')
            ''node1'' ''skip'')"
    by (simp add: occurs_at_line_start_def hba_rule_def host_type_field_def)
  from call absent show ?thesis by simp
qed

text \<open>
  C3, amended: for every node of the array \<open>pghba_ensure_host_rules_exist\<close> builds two
  rules for the node's host, one with the database field \<open>replication\<close> and one with the
  database name in quoted form, both with the given user and authentication scheme
  (\<open>node_rules\<close>). When the call returns true the file is the contents read followed by
  rules of the nodes, each with the comment and a newline. With the skip marker nothing
  is appended. Otherwise a rule that the duplicate check finds (its first occurrence in
  the contents read is at the start or right after a newline) is not appended, and a
  rule that occurs at no line start of the contents read is appended.
\<close>

theorem pghba_ensure_host_rules_exist_appends_missing_rules:
  assumes "pghba_ensure_host_rules_exist env hbaFilePath nodes ssl database username
             authenticationScheme w = Some (True, w')"
      and "files w hbaFilePath = Some bytes"
      and "\<And>d. database = Some d \<Longrightarrow> is_c_string d"
      and "\<And>u. username = Some u \<Longrightarrow> is_c_string u"
  shows "\<exists>appended.
           files w' = (files w)(hbaFilePath \<mapsto>
             c_str bytes @ concat (map (\<lambda>l. l @ HBA_LINE_COMMENT @ [newline]) appended))
         \<and> set appended \<subseteq>
             (\<Union>node \<in> set nodes.
                {hba_rule env ssl HBA_DATABASE_REPLICATION None username (host node)
                   authenticationScheme,
                 hba_rule env ssl HBA_DATABASE_DBNAME database username (host node)
                   authenticationScheme})
         \<and> (SKIP_HBA env authenticationScheme \<longrightarrow> appended = [])
         \<and> (\<forall>node \<in> set nodes.
               \<forall>l \<in> {hba_rule env ssl HBA_DATABASE_REPLICATION None username (host node)
                        authenticationScheme,
                      hba_rule env ssl HBA_DATABASE_DBNAME database username (host node)
                        authenticationScheme}.
                 (line_already_exists (c_str bytes) l \<longrightarrow> l \<notin> set appended)
               \<and> (\<not> SKIP_HBA env authenticationScheme
                    \<and> \<not> occurs_at_line_start (c_str bytes) l \<longrightarrow> l \<in> set appended))"
proof -
  have mem: "\<not> out_of_memory w"
    using assms(1) by (auto simp: pghba_ensure_host_rules_exist_def split: if_splits)
  let ?rules = "concat (map (node_rules env ssl database username authenticationScheme) nodes)"
  let ?appended = "filter (\<lambda>l. \<not> line_already_exists (c_str bytes) l \<and>
                              \<not> SKIP_HBA env authenticationScheme) ?rules"
  have written: "files w' = (files w)(hbaFilePath \<mapsto>
             c_str bytes @ concat (map (\<lambda>l. l @ HBA_LINE_COMMENT @ [newline]) ?appended))"
    using pghba_ensure_host_rules_exist_result(2) [OF assms(1) mem assms(2,3,4)] by simp
  have rules: "set ?rules =
     (\<Union>node \<in> set nodes.
                {hba_rule env ssl HBA_DATABASE_REPLICATION None username (host node)
                   authenticationScheme,
                 hba_rule env ssl HBA_DATABASE_DBNAME database username (host node)
                   authenticationScheme})"
    by (auto simp: node_rules_def)
  have sub: "set ?appended \<subseteq> set ?rules" by auto
  have skip: "SKIP_HBA env authenticationScheme \<longrightarrow> ?appended = []" by simp
  have each: "\<forall>l \<in> set ?rules.
                 (line_already_exists (c_str bytes) l \<longrightarrow> l \<notin> set ?appended)
               \<and> (\<not> SKIP_HBA env authenticationScheme
                    \<and> \<not> occurs_at_line_start (c_str bytes) l \<longrightarrow> l \<in> set ?appended)"
    using line_already_exists_occurs by auto
  show ?thesis
    apply (rule exI [of _ ?appended])
    using written sub skip each unfolding rules by blast
qed

theorem pghba_ensure_host_rules_exist_appends_missing_rules_witness:
  "returned_and_file ''pg_hba.conf''
     (pghba_ensure_host_rules_exist example_env ''pg_hba.conf''
        [\<lparr>nodeId = 1, host = ''10.0.0.1'', port = 5432\<rparr>] False
        (Some ''postgres'') (Some ''replicator'') ''trust'' hba_local_only) =
     Some (True,
           Some (''local all all trust'' @ [newline] @
                 ''host replication '' @ quoted_form ''replicator'' @
                 '' 10.0.0.1/32 trust # Auto-generated by pg_auto_failover'' @ [newline] @
                 ''host '' @ quoted_form ''postgres'' @ '' '' @ quoted_form ''replicator'' @
                 '' 10.0.0.1/32 trust # Auto-generated by pg_auto_failover'' @ [newline]))"
proof -
  have u: "escaped_in_buffer ''replicator'' = Some (quoted_form ''replicator'')"
    by (rule escaped_in_buffer_fits) (simp_all add: is_c_string_def NUL_def dquote_def BUFSIZE_def)
  have d: "escaped_in_buffer ''postgres'' = Some (quoted_form ''postgres'')"
    by (rule escaped_in_buffer_fits) (simp_all add: is_c_string_def NUL_def dquote_def BUFSIZE_def)
  have call: "\<exists>w'. pghba_ensure_host_rules_exist example_env ''pg_hba.conf''
        [\<lparr>nodeId = 1, host = ''10.0.0.1'', port = 5432\<rparr>] False
        (Some ''postgres'') (Some ''replicator'') ''trust'' hba_local_only = Some (True, w')
      \<and> files w' ''pg_hba.conf'' =
          Some (''local all all trust'' @ [newline] @
                 ''host replication '' @ quoted_form ''replicator'' @
                 '' 10.0.0.1/32 trust # Auto-generated by pg_auto_failover'' @ [newline] @
                 ''host '' @ quoted_form ''postgres'' @ '' '' @ quoted_form ''replicator'' @
                 '' 10.0.0.1/32 trust # Auto-generated by pg_auto_failover'' @ [newline])"
    by (simp add: pghba_ensure_host_rules_exist_def hba_local_only_def
          pghba_append_rule_to_buffer_def append_database_field_def append_hostname_or_cidr_def
          pghba_check_hostname_def example_env_simps u d log_at_def c_str_def
          line_already_exists_def Let_def quoted_form_def doubled_quotes_def dquote_def
          NUL_def newline_def HBA_LINE_COMMENT_def)
  then obtain w' where c: "pghba_ensure_host_rules_exist example_env ''pg_hba.conf''
        [\<lparr>nodeId = 1, host = ''10.0.0.1'', port = 5432\<rparr>] False
        (Some ''postgres'') (Some ''replicator'') ''trust'' hba_local_only = Some (True, w')"
    and f: "files w' ''pg_hba.conf'' =
          Some (''local all all trust'' @ [newline] @
                 ''host replication '' @ quoted_form ''replicator'' @
                 '' 10.0.0.1/32 trust # Auto-generated by pg_auto_failover'' @ [newline] @
                 ''host '' @ quoted_form ''postgres'' @ '' '' @ quoted_form ''replicator'' @
                 '' 10.0.0.1/32 trust # Auto-generated by pg_auto_failover'' @ [newline])"
    by blast
  have h2: "files hba_local_only ''pg_hba.conf'' = Some (''local all all trust'' @ [newline])"
    by (simp add: hba_local_only_def)
  have h3: "\<And>x. Some ''postgres'' = Some x \<Longrightarrow> is_c_string x"
    by (auto simp: is_c_string_def NUL_def)
  have h4: "\<And>x. Some ''replicator'' = Some x \<Longrightarrow> is_c_string x"
    by (auto simp: is_c_string_def NUL_def)
  from pghba_ensure_host_rules_exist_appends_missing_rules [OF c h2 h3 h4]
  show ?thesis using c f by (simp add: returned_and_file_def)
qed

section \<open>Properties of the command line\<close>

lemma cli_log_at_frame:
  "stop_signal (cli_log_at l f a st) = stop_signal st"
  "kill_calls (cli_log_at l f a st) = kill_calls st"
  "keeperOptions (cli_log_at l f a st) = keeperOptions st"
  "outputJSON (cli_log_at l f a st) = outputJSON st"
  "printed (cli_log_at l f a st) = printed st"
  "cli_log (cli_log_at l f a st) = cli_log st @ [(l, f, a)]"
  by (simp_all add: cli_log_at_def)

lemma write_out_frame:
  "stop_signal (write_out ev st) = stop_signal st"
  "kill_calls (write_out ev st) = kill_calls st"
  "keeperOptions (write_out ev st) = keeperOptions st"
  "outputJSON (write_out ev st) = outputJSON st"
  "printed (write_out ev st) = printed st @ [ev]"
  "cli_log (write_out ev st) = cli_log st"
  by (simp_all add: write_out_def)

lemma long_option_simps:
  "long_option ''pgdata'' a = (CHR ''D'', a)"
  "long_option ''fast'' a = (CHR ''f'', [])"
  "long_option ''immediate'' a = (CHR ''i'', [])"
  by (simp_all add: long_option_def long_options_def)

lemma cli_getopt_loop_other:
  assumes "\<forall>p \<in> set pre. other_option p"
  shows "\<exists>options' verboseCount' st'.
           (\<forall>rest. cli_getopt_loop env (pre @ rest) options verboseCount st =
                     cli_getopt_loop env rest options' verboseCount' st')
           \<and> stop_signal st' = stop_signal st \<and> kill_calls st' = kill_calls st"
  using assms
proof (induction pre arbitrary: options verboseCount st)
  case Nil
  then show ?case by auto
next
  case (Cons p pre)
  obtain c optarg where p: "p = (c, optarg)" by (cases p)
  have c: "c = CHR ''D'' \<or> c = CHR ''v'' \<or> c = CHR ''q''"
    using Cons.prems p by (simp add: other_option_def)
  have rest': "\<forall>p \<in> set pre. other_option p" using Cons.prems by simp
  from c show ?case
  proof (elim disjE)
    assume "c = CHR ''D''"
    then show ?thesis
      using Cons.IH [OF rest', of "options\<lparr>pgSetup_pgdata := strlcpy optarg MAXPGPATH\<rparr>" verboseCount
          "cli_log_at LOG_TRACE ''--pgdata %s'' [ArgS (strlcpy optarg MAXPGPATH)] st"] p
      by (simp add: Let_def cli_log_at_frame)
  next
    assume "c = CHR ''v''"
    then show ?thesis
      using Cons.IH [OF rest', of options "verboseCount + 1"
          "st\<lparr>log_level := (if verboseCount + 1 = 1 then LOG_INFO
                 else if verboseCount + 1 = 2 then LOG_DEBUG else LOG_TRACE)\<rparr>"] p
      by simp
  next
    assume "c = CHR ''q''"
    then show ?thesis
      using Cons.IH [OF rest', of options verboseCount "st\<lparr>log_level := LOG_ERROR\<rparr>"] p
      by simp
  qed
qed

lemma service_stop_command_returns:
  assumes "cli_getopt_loop env parsed zero_KeeperConfig 0 st = (Returns options, st')"
      and "read_pidfile env (pathnames_pid (prepare_keeper_options env options)) = Some target"
  shows "kill_calls (snd (service_stop_command env parsed st)) =
           kill_calls st' @ [(target, stop_signal st')]"
  using assms
  by (simp add: service_stop_command_def cli_getopt_pgdata_and_mode_def
        cli_service_stop_def Let_def cli_log_at_frame)

lemma service_stop_command_exits:
  assumes "cli_getopt_loop env parsed zero_KeeperConfig 0 st = (Exits code, st')"
  shows "service_stop_command env parsed st = (Exits code, st')"
  using assms by (simp add: service_stop_command_def cli_getopt_pgdata_and_mode_def)

lemma stop_no_mode:
  assumes "stop_signal st = SIGTERM" and "\<forall>p \<in> set pre. other_option p"
      and "\<And>options. read_pidfile env (pathnames_pid (prepare_keeper_options env options)) = Some target"
  shows "kill_calls (snd (service_stop_command env pre st)) = kill_calls st @ [(target, SIGTERM)]"
proof -
  obtain o1 v1 st1 where
    l1: "\<And>rest. cli_getopt_loop env (pre @ rest) zero_KeeperConfig 0 st =
            cli_getopt_loop env rest o1 v1 st1"
    and s1: "stop_signal st1 = stop_signal st" "kill_calls st1 = kill_calls st"
    using cli_getopt_loop_other [OF assms(2), of env zero_KeeperConfig 0 st] by blast
  have "cli_getopt_loop env pre zero_KeeperConfig 0 st = (Returns o1, st1)"
    using l1 [of "[]"] by simp
  from service_stop_command_returns [OF this assms(3)] show ?thesis
    using s1 assms(1) by simp
qed

lemma stop_one_mode:
  assumes "stop_signal st = SIGTERM"
      and "\<forall>p \<in> set pre. other_option p" and "\<forall>p \<in> set post. other_option p"
      and "\<And>options. read_pidfile env (pathnames_pid (prepare_keeper_options env options)) = Some target"
      and "(c, sig) = (CHR ''f'', SIGINT) \<or> (c, sig) = (CHR ''i'', SIGQUIT)"
  shows "kill_calls (snd (service_stop_command env (pre @ [(c, a)] @ post) st)) =
           kill_calls st @ [(target, sig)]"
proof -
  obtain o1 v1 st1 where
    l1: "\<And>rest. cli_getopt_loop env (pre @ rest) zero_KeeperConfig 0 st =
            cli_getopt_loop env rest o1 v1 st1"
    and s1: "stop_signal st1 = stop_signal st" "kill_calls st1 = kill_calls st"
    using cli_getopt_loop_other [OF assms(2), of env zero_KeeperConfig 0 st] by blast
  let ?st2 = "st1\<lparr>stop_signal := sig\<rparr>"
  have l2: "cli_getopt_loop env ([(c, a)] @ post) o1 v1 st1 = cli_getopt_loop env post o1 v1 ?st2"
    using assms(5) s1 assms(1) by auto
  obtain o3 v3 st3 where
    l3: "\<And>rest. cli_getopt_loop env (post @ rest) o1 v1 ?st2 =
            cli_getopt_loop env rest o3 v3 st3"
    and s3: "stop_signal st3 = stop_signal ?st2" "kill_calls st3 = kill_calls ?st2"
    using cli_getopt_loop_other [OF assms(3), of env o1 v1 ?st2] by blast
  have "cli_getopt_loop env (pre @ [(c, a)] @ post) zero_KeeperConfig 0 st = (Returns o3, st3)"
    using l1 [of "[(c, a)] @ post"] l2 l3 [of "[]"] by simp
  from service_stop_command_returns [OF this assms(4)] show ?thesis
    using s3 s1 by simp
qed

lemma stop_both_modes:
  assumes "stop_signal st = SIGTERM"
      and "\<forall>p \<in> set pre. other_option p" and "\<forall>p \<in> set mid. other_option p"
      and "c1 \<in> {CHR ''f'', CHR ''i''}" and "c2 \<in> {CHR ''f'', CHR ''i''}"
  shows "fst (service_stop_command env (pre @ [(c1, a)] @ mid @ [(c2, b)] @ rest) st) =
           Exits EXIT_CODE_BAD_ARGS
         \<and> kill_calls (snd (service_stop_command env
                 (pre @ [(c1, a)] @ mid @ [(c2, b)] @ rest) st)) = kill_calls st"
proof -
  obtain o1 v1 st1 where
    l1: "\<And>rest. cli_getopt_loop env (pre @ rest) zero_KeeperConfig 0 st =
            cli_getopt_loop env rest o1 v1 st1"
    and s1: "stop_signal st1 = stop_signal st" "kill_calls st1 = kill_calls st"
    using cli_getopt_loop_other [OF assms(2), of env zero_KeeperConfig 0 st] by blast
  let ?sig = "if c1 = CHR ''f'' then SIGINT else SIGQUIT"
  let ?st2 = "st1\<lparr>stop_signal := ?sig\<rparr>"
  have l2: "\<And>rest. cli_getopt_loop env ([(c1, a)] @ rest) o1 v1 st1 =
              cli_getopt_loop env rest o1 v1 ?st2"
    using assms(4) s1 assms(1) by auto
  obtain o3 v3 st3 where
    l3: "\<And>rest. cli_getopt_loop env (mid @ rest) o1 v1 ?st2 =
            cli_getopt_loop env rest o3 v3 st3"
    and s3: "stop_signal st3 = stop_signal ?st2" "kill_calls st3 = kill_calls ?st2"
    using cli_getopt_loop_other [OF assms(3), of env o1 v1 ?st2] by blast
  have ne: "stop_signal st3 \<noteq> SIGTERM" using s3 by simp
  have l4: "cli_getopt_loop env ([(c2, b)] @ rest) o3 v3 st3 =
              (Exits EXIT_CODE_BAD_ARGS,
               cli_log_at LOG_FATAL ''Please use either --fast or --immediate, not both'' [] st3)"
    using assms(5) ne by auto
  have "cli_getopt_loop env (pre @ [(c1, a)] @ mid @ [(c2, b)] @ rest) zero_KeeperConfig 0 st =
          (Exits EXIT_CODE_BAD_ARGS,
           cli_log_at LOG_FATAL ''Please use either --fast or --immediate, not both'' [] st3)"
    using l1 [of "[(c1, a)] @ mid @ [(c2, b)] @ rest"] l2 [of "mid @ [(c2, b)] @ rest"]
      l3 [of "[(c2, b)] @ rest"] l4 by simp
  from service_stop_command_exits [OF this] show ?thesis
    using s3 s1 by (simp add: cli_log_at_frame)
qed

subsection \<open>The parts modelled from the specification\<close>

lemma split_on_field:
  "sep \<notin> set a \<Longrightarrow> split_on sep (a @ sep # remainder) = a # split_on sep remainder"
  by (induction a) (auto split: list.splits)

lemma spec_NodeStateFromString_unknown:
  "str \<notin> fst ` set role_names \<Longrightarrow> spec_NodeStateFromString str = NO_STATE"
  using map_of_eq_None_iff [of role_names str] by (simp add: spec_NodeStateFromString_def)

lemma spec_NodeStateToString_NO_STATE: "spec_NodeStateToString NO_STATE = ''unknown''"
  by (simp add: spec_NodeStateToString_def role_names_def)

lemma spec_parse_malformed:
  "length (split_on CHR '':'' (message notification)) \<noteq> 8 \<Longrightarrow>
   spec_parse_state_notification_message notification = (False, notification)"
  by (auto simp: spec_parse_state_notification_message_def split: list.splits)

lemma decimal_examples:
  "decimal ''7'' = Some 7" "decimal ''0'' = Some 0" "decimal ''1'' = Some 1"
  "decimal ''4001'' = Some 4001"
  by (simp_all add: decimal_def is_digit_def)

lemma spec_parse_tolerant:
  assumes "CHR '':'' \<notin> set reported" and "CHR '':'' \<notin> set goal"
  shows "spec_parse_state_notification_message
           (notification\<lparr>message := ''S:'' @ reported @ '':'' @ goal @
                                      '':7.default:0:1:localhost:4001''\<rparr>) =
         (True,
          notification
            \<lparr>message := ''S:'' @ reported @ '':'' @ goal @ '':7.default:0:1:localhost:4001'',
             reportedState := spec_NodeStateFromString reported,
             goalState := spec_NodeStateFromString goal,
             formationId := ''default'',
             notification_groupId := 0,
             notification_nodeId := 1,
             nodeName := ''localhost'',
             nodePort := 4001\<rparr>)"
  using assms
  by (simp add: spec_parse_state_notification_message_def split_on_field decimal_examples)

subsection \<open>Claims about the stop command\<close>

text \<open>
  C4: in a process that has just started (\<open>stop_signal\<close> is \<open>SIGTERM\<close>), with a PID file
  that can be read, the stop command calls \<open>kill\<close> once on the PID of the file: with
  \<open>SIGTERM\<close> when no mode option is given, with \<open>SIGINT\<close> for \<open>--fast\<close>, with \<open>SIGQUIT\<close> for
  \<open>--immediate\<close>. Given both, in either order, it exits with code 11 and calls \<open>kill\<close> not
  at all. The other options on the command line are \<open>--pgdata\<close>, \<open>--verbose\<close> and
  \<open>--quiet\<close>.
\<close>

theorem stop_command_signal_by_mode:
  assumes "stop_signal st = SIGTERM"
      and "\<forall>p \<in> set pre. other_option p"
      and "\<forall>p \<in> set mid. other_option p"
      and "\<forall>p \<in> set post. other_option p"
      and "\<And>options.
             read_pidfile env (pathnames_pid (prepare_keeper_options env options)) = Some target"
  shows "kill_calls (snd (service_stop_command env pre st)) = kill_calls st @ [(target, SIGTERM)]
       \<and> kill_calls (snd (service_stop_command env (pre @ [long_option ''fast'' []] @ post) st)) =
           kill_calls st @ [(target, SIGINT)]
       \<and> kill_calls (snd (service_stop_command env
                             (pre @ [long_option ''immediate'' []] @ post) st)) =
           kill_calls st @ [(target, SIGQUIT)]
       \<and> fst (service_stop_command env
                 (pre @ [long_option ''fast'' []] @ mid @ [long_option ''immediate'' []] @ rest)
                 st) = Exits 11
       \<and> kill_calls (snd (service_stop_command env
                 (pre @ [long_option ''fast'' []] @ mid @ [long_option ''immediate'' []] @ rest)
                 st)) = kill_calls st
       \<and> fst (service_stop_command env
                 (pre @ [long_option ''immediate'' []] @ mid @ [long_option ''fast'' []] @ rest)
                 st) = Exits 11
       \<and> kill_calls (snd (service_stop_command env
                 (pre @ [long_option ''immediate'' []] @ mid @ [long_option ''fast'' []] @ rest)
                 st)) = kill_calls st"
  using stop_no_mode [OF assms(1,2,5)]
    stop_one_mode [OF assms(1,2,4,5), of "CHR ''f''" SIGINT "[]"]
    stop_one_mode [OF assms(1,2,4,5), of "CHR ''i''" SIGQUIT "[]"]
    stop_both_modes [OF assms(1,2,3), of "CHR ''f''" "CHR ''i''" env "[]" "[]" rest]
    stop_both_modes [OF assms(1,2,3), of "CHR ''i''" "CHR ''f''" env "[]" "[]" rest]
  by (simp add: long_option_simps EXIT_CODE_BAD_ARGS_def)

theorem stop_command_signal_by_mode_witness:
  "kill_calls (snd (service_stop_command example_cli_env
      [long_option ''pgdata'' ''/data''] initial_cli_state)) = [(4242, SIGTERM)]
   \<and> kill_calls (snd (service_stop_command example_cli_env
      [long_option ''pgdata'' ''/data'', long_option ''fast'' []] initial_cli_state)) =
       [(4242, SIGINT)]
   \<and> kill_calls (snd (service_stop_command example_cli_env
      [long_option ''pgdata'' ''/data'', long_option ''immediate'' []] initial_cli_state)) =
       [(4242, SIGQUIT)]
   \<and> fst (service_stop_command example_cli_env
      [long_option ''pgdata'' ''/data'', long_option ''fast'' [], long_option ''immediate'' []]
      initial_cli_state) = Exits 11
   \<and> kill_calls (snd (service_stop_command example_cli_env
      [long_option ''pgdata'' ''/data'', long_option ''fast'' [], long_option ''immediate'' []]
      initial_cli_state)) = []"
proof -
  have h1: "stop_signal initial_cli_state = SIGTERM" by (simp add: initial_cli_state_def)
  have h2: "\<forall>p \<in> set [long_option ''pgdata'' ''/data'']. other_option p"
    by (simp add: long_option_simps other_option_def)
  have h3: "\<forall>p \<in> set ([] :: (char \<times> string) list). other_option p" by simp
  have h5: "\<And>options. read_pidfile example_cli_env
              (pathnames_pid (prepare_keeper_options example_cli_env options)) = Some 4242"
    by (simp add: example_cli_env_def)
  from stop_command_signal_by_mode [OF h1 h2 h3 h3 h5, where rest = "[]"]
  show ?thesis by (simp add: initial_cli_state_def)
qed

subsection \<open>Claims about the monitor commands\<close>

text \<open>
  C5 does not hold of \<open>do monitor active\<close>: when \<open>monitor_node_active\<close> fails the command
  exits with \<open>EXIT_CODE_PGSQL\<close>, which is 15, where \<open>get primary\<close>, \<open>get others\<close> and
  \<open>get coordinator\<close> exit with \<open>EXIT_CODE_MONITOR\<close>, which is 16. Here the monitor answers
  neither \<open>node_active\<close> nor \<open>get_primary\<close>.
\<close>

theorem node_active_failure_exits_with_pgsql_code:
  "fst (cli_do_monitor_node_active example_cli_env [] initial_cli_state) = Exits 15
   \<and> fst (cli_do_monitor_get_primary_node example_cli_env [] initial_cli_state) = Exits 16"
  by (simp add: cli_do_monitor_node_active_def cli_do_monitor_get_primary_node_def
        example_cli_env_def initial_cli_state_def EXIT_CODE_PGSQL_def EXIT_CODE_MONITOR_def
        Let_def)

text \<open>
  C7 as stated fails for \<open>do monitor version\<close>: with JSON output enabled the command
  prints the installed version as a plain line, which is not JSON.
\<close>

theorem monitor_version_prints_plain_text:
  "outputJSON (initial_cli_state\<lparr>outputJSON := True\<rparr>)
   \<and> cli_do_monitor_version example_cli_env [] (initial_cli_state\<lparr>outputJSON := True\<rparr>) =
       (Returns (),
        initial_cli_state
          \<lparr>outputJSON := True,
           cli_log := [(LOG_WARN, ''This command does not support JSON output at the moment'', [])],
           printed := [Stdout_fformat (''%s'' @ [newline]) [ArgS ''1.3'']]\<rparr>)
   \<and> \<not> is_json_output (Stdout_fformat (''%s'' @ [newline]) [ArgS ''1.3''])"
  by (simp add: cli_do_monitor_version_def example_cli_env_def initial_cli_state_def
        cli_log_at_def write_out_def Let_def)

text \<open>
  C7, amended: with JSON output enabled, \<open>do monitor get primary\<close>, \<open>get others\<close>,
  \<open>get coordinator\<close>, \<open>active\<close> and \<open>parse-notification\<close> print one JSON value whenever they
  return. \<open>do monitor version\<close> does not support JSON output: once the monitor has given
  the installed version it logs a warning that says so and prints the version as a
  plain line.
\<close>

theorem json_output_of_monitor_commands:
  assumes "outputJSON st"
  shows "(monitor_init_from_pgsetup env (keeperOptions st) \<and>
          monitor_ensure_extension_version env = Some installedVersion \<longrightarrow>
            cli_do_monitor_version env argv st =
              (Returns (),
               write_out (Stdout_fformat (''%s'' @ [newline]) [ArgS installedVersion])
                 (cli_log_at LOG_WARN
                    ''This command does not support JSON output at the moment'' [] st)))
       \<and> (\<forall>st'. cli_do_monitor_get_primary_node env argv st = (Returns (), st') \<longrightarrow>
             (\<exists>js. printed st' = printed st @ [Stdout_json js]))
       \<and> (\<forall>st'. cli_do_monitor_get_other_nodes env argv st = (Returns (), st') \<longrightarrow>
             (\<exists>js. printed st' = printed st @ [Stdout_json js]))
       \<and> (\<forall>st'. cli_do_monitor_get_coordinator env argv st = (Returns (), st') \<longrightarrow>
             (\<exists>js. printed st' = printed st @ [Stdout_json js]))
       \<and> (\<forall>st'. cli_do_monitor_node_active env argv st = (Returns (), st') \<longrightarrow>
             (\<exists>js. printed st' = printed st @ [Stdout_json js]))
       \<and> (\<forall>st'. cli_do_monitor_parse_notification env argv st = (Returns (), st') \<longrightarrow>
             (\<exists>js. printed st' = printed st @ [Stdout_json js]))"
proof (intro conjI allI impI)
  assume "monitor_init_from_pgsetup env (keeperOptions st) \<and>
          monitor_ensure_extension_version env = Some installedVersion"
  then show "cli_do_monitor_version env argv st =
              (Returns (),
               write_out (Stdout_fformat (''%s'' @ [newline]) [ArgS installedVersion])
                 (cli_log_at LOG_WARN
                    ''This command does not support JSON output at the moment'' [] st))"
    using assms by (simp add: cli_do_monitor_version_def Let_def)
next
  fix st' assume "cli_do_monitor_get_primary_node env argv st = (Returns (), st')"
  then show "\<exists>js. printed st' = printed st @ [Stdout_json js]"
    using assms
    by (auto simp: cli_do_monitor_get_primary_node_def write_out_frame
          split: option.splits if_splits)
next
  fix st' assume "cli_do_monitor_get_other_nodes env argv st = (Returns (), st')"
  then show "\<exists>js. printed st' = printed st @ [Stdout_json js]"
    using assms
    by (auto simp: cli_do_monitor_get_other_nodes_def write_out_frame
          split: option.splits if_splits)
next
  fix st' assume "cli_do_monitor_get_coordinator env argv st = (Returns (), st')"
  then show "\<exists>js. printed st' = printed st @ [Stdout_json js]"
    using assms
    by (auto simp: cli_do_monitor_get_coordinator_def write_out_frame
          split: option.splits if_splits)
next
  fix st' assume "cli_do_monitor_node_active env argv st = (Returns (), st')"
  then show "\<exists>js. printed st' = printed st @ [Stdout_json js]"
    using assms
    by (auto simp: cli_do_monitor_node_active_def write_out_frame cli_log_at_frame Let_def
          split: option.splits if_splits)
next
  fix st' assume "cli_do_monitor_parse_notification env argv st = (Returns (), st')"
  then show "\<exists>js. printed st' = printed st @ [Stdout_json js]"
    by (auto simp: cli_do_monitor_parse_notification_def write_out_frame cli_log_at_frame
          Let_def split: if_splits prod.splits)
qed

theorem json_output_of_monitor_commands_witness:
  "printed (snd (cli_do_monitor_version example_cli_env []
                   (initial_cli_state\<lparr>outputJSON := True\<rparr>))) =
     [Stdout_fformat (''%s'' @ [newline]) [ArgS ''1.3'']]
   \<and> cli_log (snd (cli_do_monitor_version example_cli_env []
                   (initial_cli_state\<lparr>outputJSON := True\<rparr>))) =
     [(LOG_WARN, ''This command does not support JSON output at the moment'', [])]
   \<and> cli_do_monitor_get_coordinator example_cli_env []
        (initial_cli_state\<lparr>outputJSON := True\<rparr>) =
       (Returns (),
        initial_cli_state
          \<lparr>outputJSON := True,
           printed :=
             [Stdout_json (JSON_Object
                [(''formation'', JSON_String ''default''), (''groupId'', JSON_Number 0),
                 (''host'', JSON_String ''coordinator''), (''port'', JSON_Number 5432)])]\<rparr>)"
proof -
  have h: "outputJSON (initial_cli_state\<lparr>outputJSON := True\<rparr>)" by simp
  have v: "monitor_init_from_pgsetup example_cli_env
             (keeperOptions (initial_cli_state\<lparr>outputJSON := True\<rparr>)) \<and>
           monitor_ensure_extension_version example_cli_env = Some ''1.3''"
    by (simp add: example_cli_env_def)
  have c: "cli_do_monitor_get_coordinator example_cli_env []
        (initial_cli_state\<lparr>outputJSON := True\<rparr>) =
       (Returns (),
        initial_cli_state
          \<lparr>outputJSON := True,
           printed :=
             [Stdout_json (JSON_Object
                [(''formation'', JSON_String ''default''), (''groupId'', JSON_Number 0),
                 (''host'', JSON_String ''coordinator''), (''port'', JSON_Number 5432)])]\<rparr>)"
    by (simp add: cli_do_monitor_get_coordinator_def example_cli_env_def initial_cli_state_def
          zero_KeeperConfig_def write_out_def json_object_set_def)
  from json_output_of_monitor_commands [OF h, of example_cli_env "''1.3''" "[]"] v c
  show ?thesis
    by (simp add: write_out_frame cli_log_at_frame initial_cli_state_def)
qed

text \<open>
  C6: \<open>do monitor parse-notification\<close>, given one payload, always returns after printing
  one JSON object with the names \<open>nodename\<close>, \<open>nodeport\<close>, \<open>formationid\<close>,
  \<open>reportedState\<close> and \<open>goalState\<close>, filled from the notification record as the parser
  left it, whatever boolean the parser returned; this holds for every parser. For the
  parser and the role names modelled from the specification: a role identifier that is
  not known yields \<open>NO_STATE\<close>, written \<open>unknown\<close>; a payload that does not have the eight
  fields is refused with the record untouched; and a payload of the right form (here for
  node 1 of group 0 in formation default, at localhost:4001) is accepted whatever its
  two role identifiers are.
\<close>

theorem parse_notification_always_prints_record:
  "(\<exists>parsed notification st1.
      parse_state_notification_message env
        (zero_StateNotification\<lparr>message := strlcpy payload BUFSIZE\<rparr>) = (parsed, notification)
      \<and> cli_do_monitor_parse_notification env [payload] st = (Returns (), st1)
      \<and> printed st1 = printed st @
           [Stdout_json (JSON_Object
              [(''nodename'', JSON_String (nodeName notification)),
               (''nodeport'', JSON_Number (nodePort notification)),
               (''formationid'', JSON_String (formationId notification)),
               (''reportedState'',
                  JSON_String (NodeStateToString env (reportedState notification))),
               (''goalState'',
                  JSON_String (NodeStateToString env (goalState notification)))])])
   \<and> (str \<notin> fst ` set role_names \<longrightarrow> spec_NodeStateFromString str = NO_STATE)
   \<and> spec_NodeStateToString NO_STATE = ''unknown''
   \<and> (length (split_on CHR '':'' (message n)) \<noteq> 8 \<longrightarrow>
        spec_parse_state_notification_message n = (False, n))
   \<and> (CHR '':'' \<notin> set reported \<and> CHR '':'' \<notin> set goal \<longrightarrow>
        spec_parse_state_notification_message
          (n\<lparr>message := ''S:'' @ reported @ '':'' @ goal @ '':7.default:0:1:localhost:4001''\<rparr>) =
        (True,
         n\<lparr>message := ''S:'' @ reported @ '':'' @ goal @ '':7.default:0:1:localhost:4001'',
           reportedState := spec_NodeStateFromString reported,
           goalState := spec_NodeStateFromString goal,
           formationId := ''default'',
           notification_groupId := 0,
           notification_nodeId := 1,
           nodeName := ''localhost'',
           nodePort := 4001\<rparr>))"
proof (intro conjI impI)
  obtain parsed notification where
    p: "parse_state_notification_message env
          (zero_StateNotification\<lparr>message := strlcpy payload BUFSIZE\<rparr>) = (parsed, notification)"
    by (cases "parse_state_notification_message env
          (zero_StateNotification\<lparr>message := strlcpy payload BUFSIZE\<rparr>)")
  show "\<exists>parsed notification st1.
      parse_state_notification_message env
        (zero_StateNotification\<lparr>message := strlcpy payload BUFSIZE\<rparr>) = (parsed, notification)
      \<and> cli_do_monitor_parse_notification env [payload] st = (Returns (), st1)
      \<and> printed st1 = printed st @
           [Stdout_json (JSON_Object
              [(''nodename'', JSON_String (nodeName notification)),
               (''nodeport'', JSON_Number (nodePort notification)),
               (''formationid'', JSON_String (formationId notification)),
               (''reportedState'',
                  JSON_String (NodeStateToString env (reportedState notification))),
               (''goalState'',
                  JSON_String (NodeStateToString env (goalState notification)))])]"
    using p
    by (simp add: cli_do_monitor_parse_notification_def Let_def write_out_frame
          cli_log_at_frame json_object_set_def)
next
  assume "str \<notin> fst ` set role_names"
  then show "spec_NodeStateFromString str = NO_STATE"
    by (rule spec_NodeStateFromString_unknown)
next
  show "spec_NodeStateToString NO_STATE = ''unknown''"
    by (rule spec_NodeStateToString_NO_STATE)
next
  assume "length (split_on CHR '':'' (message n)) \<noteq> 8"
  then show "spec_parse_state_notification_message n = (False, n)"
    by (rule spec_parse_malformed)
next
  assume "CHR '':'' \<notin> set reported \<and> CHR '':'' \<notin> set goal"
  then show "spec_parse_state_notification_message
          (n\<lparr>message := ''S:'' @ reported @ '':'' @ goal @ '':7.default:0:1:localhost:4001''\<rparr>) =
        (True,
         n\<lparr>message := ''S:'' @ reported @ '':'' @ goal @ '':7.default:0:1:localhost:4001'',
           reportedState := spec_NodeStateFromString reported,
           goalState := spec_NodeStateFromString goal,
           formationId := ''default'',
           notification_groupId := 0,
           notification_nodeId := 1,
           nodeName := ''localhost'',
           nodePort := 4001\<rparr>)"
    using spec_parse_tolerant [of reported goal n] by blast
qed

theorem parse_notification_always_prints_record_witness:
  "printed (snd (cli_do_monitor_parse_notification example_cli_env
      [''S:wait_primary:bogus:7.default:0:1:localhost:4001''] initial_cli_state)) =
     [Stdout_json (JSON_Object
        [(''nodename'', JSON_String ''localhost''), (''nodeport'', JSON_Number 4001),
         (''formationid'', JSON_String ''default''),
         (''reportedState'', JSON_String ''wait_primary''),
         (''goalState'', JSON_String ''unknown'')])]
   \<and> printed (snd (cli_do_monitor_parse_notification example_cli_env
      [''garbage''] initial_cli_state)) =
     [Stdout_json (JSON_Object
        [(''nodename'', JSON_String []), (''nodeport'', JSON_Number 0),
         (''formationid'', JSON_String []),
         (''reportedState'', JSON_String ''unknown''),
         (''goalState'', JSON_String ''unknown'')])]"
proof -
  have bogus: "''bogus'' \<notin> fst ` set role_names" by (simp add: role_names_def)
  have colons: "CHR '':'' \<notin> set ''wait_primary'' \<and> CHR '':'' \<notin> set ''bogus''" by simp
  have garbage:
    "length (split_on CHR '':'' (message (zero_StateNotification\<lparr>message := ''garbage''\<rparr>))) \<noteq> 8"
    by simp
  have names: "spec_NodeStateToString WAIT_PRIMARY_STATE = ''wait_primary''"
    "spec_NodeStateFromString ''wait_primary'' = WAIT_PRIMARY_STATE"
    by (simp_all add: spec_NodeStateToString_def spec_NodeStateFromString_def role_names_def)
  have env: "parse_state_notification_message example_cli_env =
               spec_parse_state_notification_message"
    "NodeStateToString example_cli_env = spec_NodeStateToString"
    by (simp_all add: example_cli_env_def)
  note T = parse_notification_always_prints_record
             [of example_cli_env "''garbage''" initial_cli_state "''bogus''"
                 "zero_StateNotification\<lparr>message := ''garbage''\<rparr>" "''wait_primary''" "''bogus''"]
  note U = parse_notification_always_prints_record
             [of example_cli_env "''S:wait_primary:bogus:7.default:0:1:localhost:4001''"
                 initial_cli_state "''bogus''"
                 "zero_StateNotification" "''wait_primary''" "''bogus''"]
  have g: "spec_parse_state_notification_message
             (zero_StateNotification\<lparr>message := ''garbage''\<rparr>) =
           (False, zero_StateNotification\<lparr>message := ''garbage''\<rparr>)"
    using T garbage by blast
  have w: "spec_parse_state_notification_message
             (zero_StateNotification
                \<lparr>message := ''S:wait_primary:bogus:7.default:0:1:localhost:4001''\<rparr>) =
           (True,
            zero_StateNotification
              \<lparr>message := ''S:wait_primary:bogus:7.default:0:1:localhost:4001'',
               reportedState := WAIT_PRIMARY_STATE,
               goalState := NO_STATE,
               formationId := ''default'',
               notification_groupId := 0,
               notification_nodeId := 1,
               nodeName := ''localhost'',
               nodePort := 4001\<rparr>)"
    using U colons bogus names by simp
  have unknown: "spec_NodeStateToString NO_STATE = ''unknown''" using T by blast
  have zero: "nodeName zero_StateNotification = []" "nodePort zero_StateNotification = 0"
    "formationId zero_StateNotification = []" "reportedState zero_StateNotification = NO_STATE"
    "goalState zero_StateNotification = NO_STATE"
    by (simp_all add: zero_StateNotification_def)
  show ?thesis
    by (simp add: cli_do_monitor_parse_notification_def env g w unknown names strlcpy_def
          BUFSIZE_def Let_def write_out_def cli_log_at_def json_object_set_def
          initial_cli_state_def zero)
qed

subsection \<open>Claim about the supervisor\<close>

text \<open>
  C8: a transient service is restarted exactly when its exit was abnormal, that is, with
  an exit code other than zero or by a signal; a permanent service is restarted on any
  exit; a temporary service is never restarted.
\<close>

theorem restart_policy_decides_restart:
  "(policy service = RP_TRANSIENT \<longrightarrow>
      (supervisor_restarts service status \<longleftrightarrow>
         (\<exists>code. status = Exited code \<and> code \<noteq> 0) \<or> (\<exists>sig. status = Signaled sig)))
   \<and> (policy service = RP_PERMANENT \<longrightarrow> supervisor_restarts service status)
   \<and> (policy service = RP_TEMPORARY \<longrightarrow> \<not> supervisor_restarts service status)"
  by (cases status)
     (simp_all add: supervisor_restarts_def abnormal_exit_def EXIT_CODE_QUIT_def)

theorem restart_policy_decides_restart_witness:
  "supervisor_restarts
     \<lparr>name = ''postgres'', policy = RP_TRANSIENT, pid = 4243, retries = 0,
      startTime = 0, stopTime = 0\<rparr> (Exited 12)
   \<and> supervisor_restarts
     \<lparr>name = ''postgres'', policy = RP_TRANSIENT, pid = 4243, retries = 0,
      startTime = 0, stopTime = 0\<rparr> (Signaled 9)
   \<and> \<not> supervisor_restarts
     \<lparr>name = ''postgres'', policy = RP_TRANSIENT, pid = 4243, retries = 0,
      startTime = 0, stopTime = 0\<rparr> (Exited 0)
   \<and> supervisor_restarts
     \<lparr>name = ''keeper'', policy = RP_PERMANENT, pid = 4244, retries = 0,
      startTime = 0, stopTime = 0\<rparr> (Exited 0)
   \<and> \<not> supervisor_restarts
     \<lparr>name = ''listener'', policy = RP_TEMPORARY, pid = 4245, retries = 0,
      startTime = 0, stopTime = 0\<rparr> (Signaled 9)"
  using
    restart_policy_decides_restart
      [of "\<lparr>name = ''postgres'', policy = RP_TRANSIENT, pid = 4243, retries = 0,
             startTime = 0, stopTime = 0\<rparr>" "Exited 12"]
    restart_policy_decides_restart
      [of "\<lparr>name = ''postgres'', policy = RP_TRANSIENT, pid = 4243, retries = 0,
             startTime = 0, stopTime = 0\<rparr>" "Signaled 9"]
    restart_policy_decides_restart
      [of "\<lparr>name = ''postgres'', policy = RP_TRANSIENT, pid = 4243, retries = 0,
             startTime = 0, stopTime = 0\<rparr>" "Exited 0"]
    restart_policy_decides_restart
      [of "\<lparr>name = ''keeper'', policy = RP_PERMANENT, pid = 4244, retries = 0,
             startTime = 0, stopTime = 0\<rparr>" "Exited 0"]
    restart_policy_decides_restart
      [of "\<lparr>name = ''listener'', policy = RP_TEMPORARY, pid = 4245, retries = 0,
             startTime = 0, stopTime = 0\<rparr>" "Signaled 9"]
  by simp

end
